theory Spec2Isabelle
  imports Complex_Main "HOL-Library.Multiset" "HOL-Library.AList"
begin

section \<open>Data model of \<^verbatim>\<open>dataset.py\<close>\<close>

text \<open>
  Python exceptions are values.  Floats are modelled by the reals (no rounding, no
  overflow); the one place where the source writes \<^verbatim>\<open>float('inf')\<close> itself has
  its own constructor.
\<close>

datatype py_error =
    KeyError
  | IndexError
  | ValueError
  | TypeError
  | AttributeError
  | UnboundLocalError string

datatype pyfloat = Fin real | PosInf

text \<open>A bag-of-words document: a list of (term id, weight) pairs.\<close>

type_synonym bow = "(nat \<times> real) list"

text \<open>
  A gensim \<^verbatim>\<open>Dictionary\<close> is its \<^verbatim>\<open>token2id\<close> table.  \<^verbatim>\<open>len(dictionary)\<close> is the
  size of that table, \<^verbatim>\<open>dictionary.keys()\<close> are the ids, \<^verbatim>\<open>dictionary[term_id]\<close>
  reads the reverse table (built pair by pair, so a later pair would override an earlier
  one with the same id) and raises \<^verbatim>\<open>KeyError\<close> (here \<open>None\<close>) for an unknown id.
\<close>

type_synonym dictionary = "(string \<times> nat) list"

definition dict_len :: "dictionary \<Rightarrow> nat" where
  "dict_len dictionary = length dictionary"

definition dict_keys :: "dictionary \<Rightarrow> nat list" where
  "dict_keys dictionary = map snd dictionary"

definition dict_getitem :: "dictionary \<Rightarrow> nat \<Rightarrow> string option" where
  "dict_getitem dictionary term_id =
     map_of (rev (map (\<lambda>(tok, i). (i, tok)) dictionary)) term_id"

definition token2id :: "dictionary \<Rightarrow> string \<Rightarrow> nat option" where
  "token2id dictionary tok = map_of dictionary tok"

text \<open>
  The invariant of a dictionary built by \<^verbatim>\<open>Dictionary(corpus, prune_at=None)\<close>:
  tokens are distinct and the ids are exactly \<open>0 ..< len\<close>.
\<close>

definition wf_dictionary :: "dictionary \<Rightarrow> bool" where
  "wf_dictionary dictionary \<longleftrightarrow>
     distinct (map fst dictionary) \<and> distinct (map snd dictionary) \<and>
     set (map snd dictionary) = {0 ..< length dictionary}"

text \<open>
  \<^verbatim>\<open>KeyedVectors\<close>: the matrix \<^verbatim>\<open>vectors\<close>, its second dimension
  (\<^verbatim>\<open>vectors.shape[1]\<close>) and the table \<^verbatim>\<open>vocab[token].index\<close>.
\<close>

record keyed_vectors =
  vectors :: "real list list"
  vector_size :: nat
  vocab :: "(string \<times> nat) list"

section \<open>Values, libraries and module globals\<close>

text \<open>
  The values a \<^verbatim>\<open>params\<close> dictionary holds.  \<open>PSpeedLogs\<close> is the reference to the
  one list object created by \<^verbatim>\<open>classify\<close> under the key \<^verbatim>\<open>'speed_logs'\<close>; the list
  itself lives in the state, since \<^verbatim>\<open>log_speed\<close> appends to it in place.
\<close>

datatype pyval =
    PStr string
  | PInt int
  | PBool bool
  | PFloat real
  | PCorpus "bow list"
  | PSpeedLogs

datatype norm = L1 | L2

text \<open>
  A matrix with its shape, as numpy and scipy matrices have one also when a dimension
  is 0.
\<close>

record matrix =
  nrows :: nat
  ncols :: nat
  entry :: "nat \<Rightarrow> nat \<Rightarrow> real"

text \<open>
  Functions of the libraries the module calls (pyemd, scikit-learn, gensim, numpy,
  scipy, multiprocessing).  They are parameters of the model: every theorem holds for
  all of them.  A call into a library is taken to return; what the libraries raise
  themselves is outside the model.
  \<^item> \<open>emd a b D\<close>: \<^verbatim>\<open>pyemd.emd\<close>;
  \<^item> \<open>euclidean_distances X N\<close>: \<^verbatim>\<open>euclidean_distances(X, X_norm_squared=N)\<close>;
  \<^item> \<open>float_str\<close>, \<open>other_str\<close>: \<^verbatim>\<open>str\<close> of a float and of a list;
  \<^item> \<open>doc2bow d\<close>: \<^verbatim>\<open>d.doc2bow\<close>;
  \<^item> \<open>tfidf_model d\<close>: \<^verbatim>\<open>TfidfModel(dictionary=d, smartirs='dtn')[document]\<close>;
  \<^item> \<open>unitvec\<close>: \<^verbatim>\<open>gensim.matutils.unitvec\<close>;
  \<^item> \<open>imap_order\<close>: the order in which \<^verbatim>\<open>Pool.imap_unordered\<close> delivers its results;
  \<^item> \<open>np_empty r c\<close>: the contents of \<^verbatim>\<open>np.empty((r, c))\<close>;
  \<^item> \<open>sparse_term_similarity_matrix\<close>: the \<^verbatim>\<open>matrix\<close> of
    \<^verbatim>\<open>SparseTermSimilarityMatrix(WordEmbeddingSimilarityIndex(embeddings, threshold,
    exponent), dictionary, tfidf, symmetric, dominant, nonzero_limit)\<close>;
  \<^item> \<open>dense_soft_vsm\<close>, \<open>sparse_soft_vsm\<close>: the numpy and scipy arithmetic of
    lines 1196 to 1201 and 1227 to 1233 of \<^verbatim>\<open>get_similarities\<close>, which runs on
    IEEE floats (a division by zero yields \<^verbatim>\<open>inf\<close>) and is not modelled.
\<close>

record libs =
  emd :: "real list \<Rightarrow> real list \<Rightarrow> real list list \<Rightarrow> real"
  euclidean_distances :: "real list list \<Rightarrow> real list list \<Rightarrow> real list list"
  float_str :: "real \<Rightarrow> string"
  other_str :: "pyval \<Rightarrow> string"
  doc2bow :: "dictionary \<Rightarrow> string list \<Rightarrow> bow"
  tfidf_model :: "dictionary \<Rightarrow> bow \<Rightarrow> bow"
  unitvec :: "bow \<Rightarrow> norm \<Rightarrow> bow"
  imap_order ::
    "(py_error + nat \<times> nat \<times> pyfloat) list \<Rightarrow> (py_error + nat \<times> nat \<times> pyfloat) list"
  np_empty :: "nat \<Rightarrow> nat \<Rightarrow> pyfloat list list"
  sparse_term_similarity_matrix ::
    "keyed_vectors \<Rightarrow> pyval \<Rightarrow> pyval \<Rightarrow> dictionary \<Rightarrow> pyval \<Rightarrow> pyval \<Rightarrow> pyval \<Rightarrow> pyval \<Rightarrow>
     real list list"
  dense_soft_vsm :: "real list list \<Rightarrow> matrix \<Rightarrow> matrix \<Rightarrow> pyfloat list list"
  sparse_soft_vsm :: "real list list \<Rightarrow> matrix \<Rightarrow> matrix \<Rightarrow> pyfloat list list"

text \<open>
  The module globals: \<^verbatim>\<open>common_dictionary\<close>, \<^verbatim>\<open>common_embeddings\<close> and
  \<^verbatim>\<open>common_embedding_matrices\<close>, the last two dictionaries from the quantization
  level.
\<close>

record globals =
  common_dictionary :: dictionary
  common_embeddings :: "(int \<times> keyed_vectors) list"
  common_embedding_matrices :: "(int \<times> real list list) list"

text \<open>
  \<^verbatim>\<open>common_embedding_matrices_norm_squared\<close> has the same keys; its value is
  \<^verbatim>\<open>(embedding_matrix**2).sum(axis=1)[:, np.newaxis]\<close>, a column vector.
\<close>

definition norm_squared :: "real list list \<Rightarrow> real list list" where
  "norm_squared embedding_matrix = map (\<lambda>row. [sum_list (map (\<lambda>x. x ^ 2) row)]) embedding_matrix"

text \<open>
  Subscripting a dictionary with integer keys by a \<^verbatim>\<open>params\<close> value.  Python compares
  keys by value, so \<^verbatim>\<open>True\<close> finds the key 1 and \<^verbatim>\<open>32.0\<close> the key 32; a list is
  unhashable.
\<close>

fun int_key :: "pyval \<Rightarrow> py_error + int option" where
  "int_key (PInt n) = Inr (Some n)"
| "int_key (PBool b) = Inr (Some (if b then 1 else 0))"
| "int_key (PFloat r) = Inr (if r = of_int \<lfloor>r\<rfloor> then Some \<lfloor>r\<rfloor> else None)"
| "int_key (PStr s) = Inr None"
| "int_key (PCorpus c) = Inl TypeError"
| "int_key PSpeedLogs = Inl TypeError"

definition lookup_num_bits :: "(int \<times> 'a) list \<Rightarrow> pyval \<Rightarrow> py_error + 'a" where
  "lookup_num_bits table num_bits =
     (case int_key num_bits of
        Inl err \<Rightarrow> Inl err
      | Inr None \<Rightarrow> Inl KeyError
      | Inr (Some n) \<Rightarrow> (case map_of table n of None \<Rightarrow> Inl KeyError | Some v \<Rightarrow> Inr v))"

section \<open>Inverse word mover's distance of one document pair\<close>

text \<open>
  \<^verbatim>\<open>dict(document)\<close>: a later pair overrides an earlier one with the same key.
  \<^verbatim>\<open>tuple(set(..) | set(..))\<close> enumerates the union of the keys in an order Python
  does not specify; the model takes the ascending one.
\<close>

definition dict_of :: "bow \<Rightarrow> nat \<Rightarrow> real option" where
  "dict_of document = map_of (rev document)"

definition dict_get :: "(nat \<Rightarrow> real option) \<Rightarrow> nat \<Rightarrow> real \<Rightarrow> real" where
  "dict_get d x dflt = (case d x of None \<Rightarrow> dflt | Some v \<Rightarrow> v)"

definition shared_terms_of :: "bow \<Rightarrow> bow \<Rightarrow> nat list" where
  "shared_terms_of query_document collection_document =
     sort (remdups (map fst query_document @ map fst collection_document))"

definition inverse_wmd_worker ::
  "libs \<Rightarrow> globals \<Rightarrow> (nat \<times> bow) \<times> (nat \<times> bow) \<times> pyval \<Rightarrow> py_error + nat \<times> nat \<times> pyfloat" where
  "inverse_wmd_worker L G args =
     (case args of ((row_number, query_document), (column_number, collection_document), num_bits) \<Rightarrow>
        case lookup_num_bits (common_embedding_matrices G) num_bits of
          Inl err \<Rightarrow> Inl err
        | Inr embedding_matrix \<Rightarrow>
            let embedding_matrix_norm_squared = norm_squared embedding_matrix;
                shared_terms = shared_terms_of query_document collection_document
            in if shared_terms \<noteq> [] then
                 let translated_query_document =
                       map (\<lambda>x. dict_get (dict_of query_document) x 0) shared_terms;
                     translated_collection_document =
                       map (\<lambda>x. dict_get (dict_of collection_document) x 0) shared_terms
                 in if \<exists>t \<in> set shared_terms. length embedding_matrix \<le> t then Inl IndexError
                    else
                      let shared_embedding_matrix = map ((!) embedding_matrix) shared_terms;
                          shared_embedding_matrix_norm_squared =
                            map ((!) embedding_matrix_norm_squared) shared_terms;
                          distance_matrix =
                            euclidean_distances L shared_embedding_matrix
                              shared_embedding_matrix_norm_squared;
                          distance =
                            emd L translated_collection_document translated_query_document
                              distance_matrix
                      in Inr (row_number, column_number,
                              if distance = 0 then PosInf else Fin (1 / distance))
               else Inr (row_number, column_number, Fin 0))"

section \<open>The word mover's similarity matrix\<close>

text \<open>
  \<^verbatim>\<open>product(enumerate(query_corpus), enumerate(collection_corpus), (num_bits,))\<close>: one
  unit of work per pair, each with its own coordinates.
\<close>

definition wmd_tasks ::
  "bow list \<Rightarrow> bow list \<Rightarrow> pyval \<Rightarrow> ((nat \<times> bow) \<times> (nat \<times> bow) \<times> pyval) list" where
  "wmd_tasks query_corpus collection_corpus num_bits =
     concat (map (\<lambda>q. map (\<lambda>c. (q, c, num_bits)) (enumerate 0 collection_corpus))
                 (enumerate 0 query_corpus))"

text \<open>\<^verbatim>\<open>doc_sims[row_number, column_number] = similarity\<close> on a dense matrix.\<close>

definition set_item ::
  "pyfloat list list \<Rightarrow> nat \<Rightarrow> nat \<Rightarrow> pyfloat \<Rightarrow> py_error + pyfloat list list" where
  "set_item doc_sims row_number column_number similarity =
     (if row_number < length doc_sims \<and> column_number < length (doc_sims ! row_number)
      then Inr (doc_sims[row_number := (doc_sims ! row_number)[column_number := similarity]])
      else Inl IndexError)"

text \<open>
  The loop over \<^verbatim>\<open>pool.imap_unordered\<close>: the results are consumed in the order they
  arrive; a worker's exception is raised when its result is reached.
\<close>

fun scatter ::
  "pyfloat list list \<Rightarrow> (py_error + nat \<times> nat \<times> pyfloat) list \<Rightarrow> py_error + pyfloat list list" where
  "scatter doc_sims [] = Inr doc_sims"
| "scatter doc_sims (Inl err # rest) = Inl err"
| "scatter doc_sims (Inr (row_number, column_number, similarity) # rest) =
     (case set_item doc_sims row_number column_number similarity of
        Inl err \<Rightarrow> Inl err
      | Inr doc_sims' \<Rightarrow> scatter doc_sims' rest)"

text \<open>
  The coordinates a unit of work carries.
\<close>

definition task_coordinates :: "(nat \<times> bow) \<times> (nat \<times> bow) \<times> pyval \<Rightarrow> nat \<times> nat" where
  "task_coordinates task = (case task of ((row_number, q), (column_number, c), num_bits) \<Rightarrow>
     (row_number, column_number))"

text \<open>
  Lines 1173 to 1187 of \<^verbatim>\<open>get_similarities\<close>.  \<open>arrival\<close> is the order in which
  \<^verbatim>\<open>imap_unordered\<close> delivers the results, \<open>fresh\<close> the unspecified contents of
  \<^verbatim>\<open>np.empty\<close>.
\<close>

definition wmd_doc_sims ::
  "libs \<Rightarrow> globals \<Rightarrow>
   ((py_error + nat \<times> nat \<times> pyfloat) list \<Rightarrow> (py_error + nat \<times> nat \<times> pyfloat) list) \<Rightarrow>
   pyfloat list list \<Rightarrow> bow list \<Rightarrow> bow list \<Rightarrow> pyval \<Rightarrow> py_error + pyfloat list list" where
  "wmd_doc_sims L G arrival fresh query_corpus collection_corpus num_bits =
     scatter fresh
       (arrival (map (inverse_wmd_worker L G) (wmd_tasks query_corpus collection_corpus num_bits)))"

section \<open>Pivoted document length normalisation\<close>

text \<open>
  \<^verbatim>\<open>len(token)\<close> in \<^verbatim>\<open>pivot_worker\<close> is applied to the elements of a bag-of-words
  document, which are 2-tuples \<^verbatim>\<open>(term_id, term_weight)\<close>; the length of a Python
  2-tuple is 2.
\<close>

definition py_len_pair :: "'a \<times> 'b \<Rightarrow> nat" where
  "py_len_pair token = 2"

definition pivot_worker :: "bow \<times> real \<times> real \<Rightarrow> bow" where
  "pivot_worker args =
     (case args of (document, slope, avgdl) \<Rightarrow>
        let doclen = sum_list (map py_len_pair document)
        in map (\<lambda>(term_id, term_weight).
                  (term_id, term_weight / ((1 - slope) * avgdl + slope * real doclen)))
               document)"

text \<open>
  The length \<^verbatim>\<open>Dataset.from_documents\<close> averages into \<^verbatim>\<open>avgdl\<close>: there the
  same expression runs over a tokenized document, a list of strings.
\<close>

definition char_length :: "string list \<Rightarrow> nat" where
  "char_length document = sum_list (map length document)"

section \<open>Embedding matrix of a dictionary\<close>

text \<open>
  The generator of \<^verbatim>\<open>translate_embeddings\<close>: for every id in ascending order whose
  token has an embedding, the pair (source row, target row).
\<close>

fun row_pairs :: "keyed_vectors \<Rightarrow> dictionary \<Rightarrow> nat list \<Rightarrow> py_error + (nat \<times> nat) list" where
  "row_pairs embeddings dictionary [] = Inr []"
| "row_pairs embeddings dictionary (term_id # rest) =
     (case dict_getitem dictionary term_id of
        None \<Rightarrow> Inl KeyError
      | Some tok \<Rightarrow>
          (case row_pairs embeddings dictionary rest of
             Inl err \<Rightarrow> Inl err
           | Inr pairs \<Rightarrow>
               (case map_of (vocab embeddings) tok of
                  None \<Rightarrow> Inr pairs
                | Some index \<Rightarrow> Inr ((index, term_id) # pairs))))"

text \<open>
  \<^verbatim>\<open>source_rows, target_rows = zip(*pairs)\<close> unpacks two tuples; with no pair at all
  \<^verbatim>\<open>zip()\<close> is empty and the unpacking raises \<^verbatim>\<open>ValueError\<close>.  The indexed assignment
  raises \<^verbatim>\<open>IndexError\<close> for a row out of range.
\<close>

definition translate_embeddings :: "keyed_vectors \<Rightarrow> dictionary \<Rightarrow> py_error + real list list" where
  "translate_embeddings embeddings dictionary =
     (let source_matrix = vectors embeddings;
          target_matrix = replicate (dict_len dictionary) (replicate (vector_size embeddings) 0)
      in case row_pairs embeddings dictionary (sort (dict_keys dictionary)) of
           Inl err \<Rightarrow> Inl err
         | Inr [] \<Rightarrow> Inl ValueError
         | Inr (p # ps) \<Rightarrow>
             if \<exists>s \<in> set (map fst (p # ps)). length source_matrix \<le> s then Inl IndexError
             else if \<exists>t \<in> set (map snd (p # ps)). dict_len dictionary \<le> t then Inl IndexError
             else Inr (fold (\<lambda>(s, t) m. m[t := source_matrix ! s]) (p # ps) target_matrix))"

section \<open>Datasets, parameters and the state\<close>

record dataset =
  name :: string
  corpus :: "string list list"
  avgdl :: real
  dictionary :: dictionary
  target :: "int list option"

text \<open>
  A \<^verbatim>\<open>params\<close> dictionary: an association list with distinct keys in insertion
  order; \<open>map_of\<close> reads it, \<open>AList.update\<close> is the assignment \<^verbatim>\<open>params[k] = v\<close>.
\<close>

type_synonym params = "(string \<times> pyval) list"

definition params_get :: "params \<Rightarrow> string \<Rightarrow> py_error + pyval" where
  "params_get p k = (case map_of p k of None \<Rightarrow> Inl KeyError | Some v \<Rightarrow> Inr v)"

text \<open>
  What \<^verbatim>\<open>log_speed\<close> appends; the measured duration is not modelled.
\<close>

datatype log_entry =
    Processed nat
  | Produced_term_matrix
  | Constructed_term_matrix

text \<open>
  The state a call works on: the caller's \<^verbatim>\<open>params\<close> dictionary, the list object
  under its key \<^verbatim>\<open>'speed_logs'\<close>, and the pickled matrices under \<^verbatim>\<open>matrices/\<close>.
\<close>

record world =
  params :: params
  speed_logs :: "log_entry list"
  files :: "(string \<times> real list list) list"

text \<open>
  Leaving a \<^verbatim>\<open>with log_speed(speed_logs, message)\<close> block without an exception:
  \<^verbatim>\<open>speed_logs.append\<close>.  A value that is not the list of the state has no such
  list to append to in this model.
\<close>

definition log_speed_exit :: "pyval \<Rightarrow> log_entry \<Rightarrow> world \<Rightarrow> world \<times> (py_error + unit)" where
  "log_speed_exit speed_logs_ref speed_log w =
     (if speed_logs_ref = PSpeedLogs then (w\<lparr>speed_logs := speed_logs w @ [speed_log]\<rparr>, Inr ())
      else (w, Inl AttributeError))"

definition bind_e :: "'e + 'a \<Rightarrow> ('a \<Rightarrow> 'e + 'b) \<Rightarrow> 'e + 'b" where
  "bind_e x f = (case x of Inl err \<Rightarrow> Inl err | Inr v \<Rightarrow> f v)"

fun sequence_e :: "('e + 'a) list \<Rightarrow> 'e + 'a list" where
  "sequence_e [] = Inr []"
| "sequence_e (x # xs) =
     (case x of
        Inl err \<Rightarrow> Inl err
      | Inr v \<Rightarrow> (case sequence_e xs of Inl err \<Rightarrow> Inl err | Inr vs \<Rightarrow> Inr (v # vs)))"

section \<open>The cache of term similarity matrices\<close>

text \<open>\<^verbatim>\<open>'{}'.format(value)\<close>.\<close>

fun nat_str :: "nat \<Rightarrow> string" where
  "nat_str n =
     (if n < 10 then [''0123456789'' ! n]
      else nat_str (n div 10) @ [''0123456789'' ! (n mod 10)])"

declare nat_str.simps [simp del]

definition int_str :: "int \<Rightarrow> string" where
  "int_str n = (if n < 0 then ''-'' @ nat_str (nat (- n)) else nat_str (nat n))"

fun py_str :: "libs \<Rightarrow> pyval \<Rightarrow> string" where
  "py_str L (PStr s) = s"
| "py_str L (PInt n) = int_str n"
| "py_str L (PBool b) = (if b then ''True'' else ''False'')"
| "py_str L (PFloat r) = float_str L r"
| "py_str L (PCorpus c) = other_str L (PCorpus c)"
| "py_str L PSpeedLogs = other_str L PSpeedLogs"

definition term_basename ::
  "libs \<Rightarrow> pyval \<Rightarrow> pyval \<Rightarrow> pyval \<Rightarrow> pyval \<Rightarrow> pyval \<Rightarrow> pyval \<Rightarrow> pyval \<Rightarrow> string" where
  "term_basename L num_bits tfidf symmetric dominant nonzero_limit threshold exponent =
     py_str L num_bits @ ''-'' @ py_str L tfidf @ ''-'' @ py_str L symmetric @ ''-'' @
     py_str L dominant @ ''-'' @ py_str L nonzero_limit @ ''-'' @ py_str L threshold @ ''-'' @
     py_str L exponent"

definition termsim_filename :: "string \<Rightarrow> string" where
  "termsim_filename basename = ''matrices/termsim-'' @ basename @ ''.pkl.xz''"

text \<open>
  \<open>built\<close> is the matrix \<^verbatim>\<open>SparseTermSimilarityMatrix(*args, **kwargs)\<close> constructs;
  it is constructed only on the \<^verbatim>\<open>IOError\<close> path, where the inner \<^verbatim>\<open>log_speed\<close> block
  records the construction.  A file that exists holds what \<^verbatim>\<open>pickle.dump\<close> wrote.
  \<^verbatim>\<open>make('matrices')\<close> is a function of the module \<^verbatim>\<open>common\<close> and leaves this
  state as it is.
\<close>

definition cached_sparse_term_similarity_matrix ::
  "string \<Rightarrow> pyval \<Rightarrow> real list list \<Rightarrow> world \<Rightarrow> world \<times> (py_error + real list list)" where
  "cached_sparse_term_similarity_matrix basename speed_logs_ref built w =
     (let filename = termsim_filename basename
      in case map_of (files w) filename of
           Some term_matrix \<Rightarrow>
             (case log_speed_exit speed_logs_ref Produced_term_matrix w of
                (w', Inl err) \<Rightarrow> (w', Inl err)
              | (w', Inr u) \<Rightarrow> (w', Inr term_matrix))
         | None \<Rightarrow>
             (case log_speed_exit speed_logs_ref Constructed_term_matrix w of
                (w1, Inl err) \<Rightarrow> (w1, Inl err)
              | (w1, Inr u) \<Rightarrow>
                  let term_matrix = built;
                      w2 = w1\<lparr>files := AList.update filename term_matrix (files w1)\<rparr>
                  in (case log_speed_exit speed_logs_ref Produced_term_matrix w2 of
                        (w3, Inl err) \<Rightarrow> (w3, Inl err)
                      | (w3, Inr u) \<Rightarrow> (w3, Inr term_matrix))))"

section \<open>Similarities between two datasets\<close>

text \<open>The local variables \<^verbatim>\<open>get_similarities\<close> reads from \<^verbatim>\<open>params\<close>.\<close>

record config =
  cfg_space :: pyval
  cfg_sparse :: "(pyval \<times> pyval \<times> pyval \<times> pyval \<times> pyval \<times> pyval) option"
  cfg_weights :: pyval
  cfg_slope :: "pyval option"
  cfg_task :: pyval
  cfg_measure :: pyval
  cfg_num_bits :: pyval
  cfg_speed_logs :: pyval

definition read_sparse ::
  "params \<Rightarrow> py_error + (pyval \<times> pyval \<times> pyval \<times> pyval \<times> pyval \<times> pyval)" where
  "read_sparse p =
     bind_e (params_get p ''tfidf'') (\<lambda>tfidf.
     bind_e (params_get p ''symmetric'') (\<lambda>symmetric.
     bind_e (params_get p ''dominant'') (\<lambda>dominant.
     bind_e (params_get p ''nonzero_limit'') (\<lambda>nonzero_limit.
     bind_e (params_get p ''threshold'') (\<lambda>threshold.
     bind_e (params_get p ''exponent'') (\<lambda>exponent.
       Inr (tfidf, symmetric, dominant, nonzero_limit, threshold, exponent)))))))"

definition read_config :: "params \<Rightarrow> py_error + config" where
  "read_config p =
     bind_e (params_get p ''space'') (\<lambda>space.
     bind_e (if space = PStr ''sparse_soft_vsm'' then map_sum id Some (read_sparse p) else Inr None)
       (\<lambda>sparse.
     bind_e (params_get p ''weights'') (\<lambda>weights.
     bind_e (if weights = PStr ''tfidf'' then map_sum id Some (params_get p ''slope'') else Inr None)
       (\<lambda>slope.
     bind_e (params_get p ''task'') (\<lambda>task.
     bind_e (params_get p ''measure'') (\<lambda>measure.
     bind_e (params_get p ''num_bits'') (\<lambda>num_bits.
     bind_e (params_get p ''speed_logs'') (\<lambda>speed_logs_ref.
       Inr \<lparr>cfg_space = space, cfg_sparse = sparse, cfg_weights = weights, cfg_slope = slope,
            cfg_task = task, cfg_measure = measure, cfg_num_bits = num_bits,
            cfg_speed_logs = speed_logs_ref\<rparr>))))))))"

text \<open>
  \<^verbatim>\<open>translate_document_worker\<close>: terms without an id in the target dictionary are
  dropped.
\<close>

fun translate_pairs :: "dictionary \<Rightarrow> dictionary \<Rightarrow> bow \<Rightarrow> py_error + bow" where
  "translate_pairs source_dictionary target_dictionary [] = Inr []"
| "translate_pairs source_dictionary target_dictionary ((term_id, term_weight) # rest) =
     (case dict_getitem source_dictionary term_id of
        None \<Rightarrow> Inl KeyError
      | Some tok \<Rightarrow>
          (case translate_pairs source_dictionary target_dictionary rest of
             Inl err \<Rightarrow> Inl err
           | Inr translated \<Rightarrow>
               (case token2id target_dictionary tok of
                  None \<Rightarrow> Inr translated
                | Some i \<Rightarrow> Inr ((i, term_weight) # translated))))"

definition translate_document_worker :: "bow \<times> dictionary \<times> dictionary \<Rightarrow> py_error + bow" where
  "translate_document_worker args =
     (case args of (document, source_dictionary, target_dictionary) \<Rightarrow>
        translate_pairs source_dictionary target_dictionary document)"

text \<open>
  The slope as a number: \<^verbatim>\<open>1.0 - slope\<close> raises \<^verbatim>\<open>TypeError\<close> for a value that is
  not one (a \<^verbatim>\<open>bool\<close> is an \<^verbatim>\<open>int\<close>).  \<^verbatim>\<open>pivot_worker\<close> is mapped lazily, so
  an empty corpus never evaluates the expression.
\<close>

fun as_real :: "pyval \<Rightarrow> py_error + real" where
  "as_real (PFloat r) = Inr r"
| "as_real (PInt n) = Inr (of_int n)"
| "as_real (PBool b) = Inr (if b then 1 else 0)"
| "as_real (PStr s) = Inl TypeError"
| "as_real (PCorpus c) = Inl TypeError"
| "as_real PSpeedLogs = Inl TypeError"

definition pivot_all :: "pyval \<Rightarrow> real \<Rightarrow> bow list \<Rightarrow> py_error + bow list" where
  "pivot_all slope avgdl_value documents =
     (if documents = [] then Inr []
      else bind_e (as_real slope)
             (\<lambda>s. Inr (map (\<lambda>document. pivot_worker (document, s, avgdl_value)) documents)))"

text \<open>
  \<^verbatim>\<open>if key not in params: params[key] = encoded\<close>, and the read of the corpus under
  the key.  The callers store nothing but a corpus there; for another value the model
  raises \<^verbatim>\<open>TypeError\<close>.
\<close>

definition cache_corpus :: "string \<Rightarrow> bow list \<Rightarrow> params \<Rightarrow> params" where
  "cache_corpus key encoded p =
     (if map_of p key = None then AList.update key (PCorpus encoded) p else p)"

definition corpus_value :: "params \<Rightarrow> string \<Rightarrow> py_error + bow list" where
  "corpus_value p key =
     (case map_of p key of
        Some (PCorpus c) \<Rightarrow> Inr c
      | Some other \<Rightarrow> Inl TypeError
      | None \<Rightarrow> Inl KeyError)"

text \<open>The pivoted TF-IDF encoding of lines 1124 to 1134 and 1152 to 1161.\<close>

definition tfidf_encode ::
  "libs \<Rightarrow> globals \<Rightarrow> dataset \<Rightarrow> config \<Rightarrow> bow list \<Rightarrow> py_error + bow list" where
  "tfidf_encode L G collection cfg bows =
     (case cfg_slope cfg of
        None \<Rightarrow> Inl (UnboundLocalError ''slope'')
      | Some slope \<Rightarrow>
          bind_e (pivot_all slope (avgdl collection)
                    (map (tfidf_model L (dictionary collection)) bows))
            (\<lambda>pivoted.
               sequence_e
                 (map (\<lambda>document.
                         translate_document_worker
                           (document, dictionary collection, common_dictionary G))
                      pivoted)))"

text \<open>Lines 1120 to 1145: the collection.\<close>

definition encode_collection ::
  "libs \<Rightarrow> globals \<Rightarrow> dataset \<Rightarrow> config \<Rightarrow> params \<Rightarrow> params \<times> (py_error + bow list)" where
  "encode_collection L G collection cfg p =
     (if cfg_weights cfg = PStr ''tfidf'' then
        let p1 = cache_corpus ''collection_corpus''
                   (map (doc2bow L (dictionary collection)) (corpus collection)) p
        in (p1, bind_e (corpus_value p1 ''collection_corpus'') (tfidf_encode L G collection cfg))
      else
        let p1 = cache_corpus ''collection_corpus''
                   (map (doc2bow L (common_dictionary G)) (corpus collection)) p
        in (p1, bind_e (corpus_value p1 ''collection_corpus'')
                  (\<lambda>collection_corpus.
                     if cfg_weights cfg = PStr ''bow'' then
                       let norm = (if cfg_measure cfg = PStr ''wmd'' then L1 else L2)
                       in Inr (map (\<lambda>document. unitvec L document norm) collection_corpus)
                     else Inr collection_corpus)))"

text \<open>
  Lines 1147 to 1170: the queries.  Outside the two branches \<^verbatim>\<open>query_corpus\<close> is
  never assigned, and \<^verbatim>\<open>list(query_corpus)\<close> raises \<^verbatim>\<open>UnboundLocalError\<close>.
\<close>

definition encode_queries ::
  "libs \<Rightarrow> globals \<Rightarrow> dataset \<Rightarrow> dataset \<Rightarrow> config \<Rightarrow> params \<Rightarrow> params \<times> (py_error + bow list)" where
  "encode_queries L G collection queries cfg p =
     (if cfg_task cfg = PStr ''classification'' then
        if cfg_weights cfg = PStr ''tfidf'' then
          let p1 = cache_corpus ''query_corpus''
                     (map (doc2bow L (dictionary collection)) (corpus queries)) p
          in (p1, bind_e (corpus_value p1 ''query_corpus'') (tfidf_encode L G collection cfg))
        else if cfg_weights cfg = PStr ''bow'' then
          let p1 = cache_corpus ''query_corpus''
                     (map (doc2bow L (common_dictionary G)) (corpus queries)) p
          in (p1, bind_e (corpus_value p1 ''query_corpus'')
                    (\<lambda>query_corpus.
                       if cfg_measure cfg = PStr ''wmd''
                       then Inr (map (\<lambda>document. unitvec L document L1) query_corpus)
                       else Inr (map (\<lambda>document. unitvec L document L2) query_corpus)))
        else (p, Inl (UnboundLocalError ''query_corpus''))
      else (p, Inl (UnboundLocalError ''query_corpus'')))"

text \<open>
  \<^verbatim>\<open>corpus2csc(corpus, num_terms)\<close>: a matrix of terms by documents; an entry is the
  weight of the term in the document.  Transposition, the matrix product (the shapes
  must agree) and \<^verbatim>\<open>todense\<close>.
\<close>

definition weight_of :: "bow \<Rightarrow> nat \<Rightarrow> real" where
  "weight_of document t = sum_list (map snd (filter (\<lambda>(term_id, term_weight). term_id = t) document))"

definition corpus2csc :: "bow list \<Rightarrow> nat \<Rightarrow> matrix" where
  "corpus2csc documents num_terms =
     \<lparr>nrows = num_terms, ncols = length documents,
      entry = (\<lambda>t d. weight_of (documents ! d) t)\<rparr>"

definition mat_T :: "matrix \<Rightarrow> matrix" where
  "mat_T M = \<lparr>nrows = ncols M, ncols = nrows M, entry = (\<lambda>i j. entry M j i)\<rparr>"

definition mat_dot :: "matrix \<Rightarrow> matrix \<Rightarrow> py_error + matrix" where
  "mat_dot A B =
     (if ncols A = nrows B
      then Inr \<lparr>nrows = nrows A, ncols = ncols B,
                entry = (\<lambda>i j. \<Sum>k \<leftarrow> [0 ..< ncols A]. entry A i k * entry B k j)\<rparr>
      else Inl ValueError)"

definition todense :: "matrix \<Rightarrow> pyfloat list list" where
  "todense M = map (\<lambda>i. map (\<lambda>j. Fin (entry M i j)) [0 ..< ncols M]) [0 ..< nrows M]"

text \<open>
  Lines 1172 to 1233.  The result is \<open>None\<close> when no branch assigns \<^verbatim>\<open>doc_sims\<close>.
\<close>

definition compute_doc_sims ::
  "libs \<Rightarrow> globals \<Rightarrow> config \<Rightarrow> bow list \<Rightarrow> bow list \<Rightarrow> world \<Rightarrow>
   world \<times> (py_error + pyfloat list list option)" where
  "compute_doc_sims L G cfg collection_corpus query_corpus w =
     (if cfg_measure cfg = PStr ''wmd'' then
        (w, map_sum id Some
              (wmd_doc_sims L G (imap_order L)
                 (np_empty L (length query_corpus) (length collection_corpus))
                 query_corpus collection_corpus (cfg_num_bits cfg)))
      else if cfg_measure cfg = PStr ''inner_product'' then
        let collection_matrix = corpus2csc collection_corpus (dict_len (common_dictionary G));
            query_matrix = corpus2csc query_corpus (dict_len (common_dictionary G))
        in if cfg_space cfg = PStr ''vsm'' then
             (w, bind_e (mat_dot (mat_T collection_matrix) query_matrix)
                   (\<lambda>product. Inr (Some (todense (mat_T product)))))
           else if cfg_space cfg = PStr ''dense_soft_vsm'' then
             (w, bind_e (lookup_num_bits (common_embedding_matrices G) (cfg_num_bits cfg))
                   (\<lambda>embedding_matrix.
                      Inr (Some (dense_soft_vsm L embedding_matrix collection_matrix query_matrix))))
           else if cfg_space cfg = PStr ''sparse_soft_vsm'' then
             (case cfg_sparse cfg of
                None \<Rightarrow> (w, Inl (UnboundLocalError ''tfidf''))
              | Some (tfidf, symmetric, dominant, nonzero_limit, threshold, exponent) \<Rightarrow>
                  (case lookup_num_bits (common_embeddings G) (cfg_num_bits cfg) of
                     Inl err \<Rightarrow> (w, Inl err)
                   | Inr embeddings \<Rightarrow>
                       (case cached_sparse_term_similarity_matrix
                               (term_basename L (cfg_num_bits cfg) tfidf symmetric dominant
                                  nonzero_limit threshold exponent)
                               (cfg_speed_logs cfg)
                               (sparse_term_similarity_matrix L embeddings threshold exponent
                                  (common_dictionary G) tfidf symmetric dominant nonzero_limit)
                               w of
                          (w', Inl err) \<Rightarrow> (w', Inl err)
                        | (w', Inr term_matrix) \<Rightarrow>
                            (w', Inr (Some (sparse_soft_vsm L term_matrix collection_matrix
                                             query_matrix))))))
           else (w, Inr None)
      else (w, Inr None))"

text \<open>
  \<^verbatim>\<open>Dataset.get_similarities\<close>, with \<open>collection\<close> for \<^verbatim>\<open>self\<close>.  The state is
  returned also when the call raises: what was stored in \<^verbatim>\<open>params\<close> stays stored.
  \<^verbatim>\<open>return doc_sims\<close> follows the \<^verbatim>\<open>log_speed\<close> block.
\<close>

definition get_similarities ::
  "libs \<Rightarrow> globals \<Rightarrow> dataset \<Rightarrow> dataset \<Rightarrow> world \<Rightarrow> world \<times> (py_error + pyfloat list list)" where
  "get_similarities L G collection queries w =
     (case read_config (params w) of
        Inl err \<Rightarrow> (w, Inl err)
      | Inr cfg \<Rightarrow>
          let num_document_pairs = length (corpus collection) * length (corpus queries)
          in case encode_collection L G collection cfg (params w) of
               (p1, Inl err) \<Rightarrow> (w\<lparr>params := p1\<rparr>, Inl err)
             | (p1, Inr collection_corpus) \<Rightarrow>
                 (case encode_queries L G collection queries cfg p1 of
                    (p2, Inl err) \<Rightarrow> (w\<lparr>params := p2\<rparr>, Inl err)
                  | (p2, Inr query_corpus) \<Rightarrow>
                      (case compute_doc_sims L G cfg collection_corpus query_corpus
                              (w\<lparr>params := p2\<rparr>) of
                         (w3, Inl err) \<Rightarrow> (w3, Inl err)
                       | (w3, Inr doc_sims) \<Rightarrow>
                           (case log_speed_exit (cfg_speed_logs cfg)
                                   (Processed num_document_pairs) w3 of
                              (w4, Inl err) \<Rightarrow> (w4, Inl err)
                            | (w4, Inr u) \<Rightarrow>
                                (w4, case doc_sims of
                                       None \<Rightarrow> Inl (UnboundLocalError ''doc_sims'')
                                     | Some m \<Rightarrow> Inr m)))))"

section \<open>Classification with a grid search\<close>

text \<open>
  Modelled from the spec: the class \<^verbatim>\<open>ClassificationResult\<close> of the module \<^verbatim>\<open>common\<close>,
  which is not part of the sources.  A result records the parameters it was computed
  under and is ordered by its accuracy (``selects the grid point and k with the highest
  validation accuracy'').  Its constructors \<^verbatim>\<open>from_similarities\<close> (the k nearest
  neighbours vote, \<open>k\<close> read from the parameters) and \<^verbatim>\<open>from_results\<close> are parameters.
\<close>

record classification_result =
  accuracy :: real
  result_params :: params

record common =
  from_similarities :: "pyfloat list list \<Rightarrow> dataset \<Rightarrow> dataset \<Rightarrow> params \<Rightarrow> classification_result"
  from_results :: "int list \<Rightarrow> int list \<Rightarrow> params \<Rightarrow> classification_result"
  random_predictions :: "int list \<Rightarrow> int list"

text \<open>
  \<^verbatim>\<open>max(results)\<close>: the first element is kept until a later one is greater, so among
  equal maxima the first found wins; an empty list raises \<^verbatim>\<open>ValueError\<close> (\<open>None\<close>).
\<close>

fun max_from :: "classification_result \<Rightarrow> classification_result list \<Rightarrow> classification_result" where
  "max_from best [] = best"
| "max_from best (r # rs) = max_from (if accuracy best < accuracy r then r else best) rs"

definition py_max :: "classification_result list \<Rightarrow> classification_result option" where
  "py_max results = (case results of [] \<Rightarrow> None | r # rs \<Rightarrow> Some (max_from r rs))"



definition initial_params :: "pyval \<Rightarrow> pyval \<Rightarrow> pyval \<Rightarrow> pyval \<Rightarrow> params" where
  "initial_params space weights measure' num_bits =
     [(''space'', space), (''weights'', weights), (''measure'', measure'),
      (''num_bits'', num_bits), (''task'', PStr ''classification''),
      (''speed_logs'', PSpeedLogs)]"






text \<open>
  Two notions the statements about \<^verbatim>\<open>classify\<close> use.  The document pair counts of
  the \<^verbatim>\<open>Processed\<close> entries of a speed log: every call of \<^verbatim>\<open>get_similarities\<close> that
  returns appends exactly one such entry.  And, in the words of the specification, the
  result ``with the highest validation accuracy (first-found among equal maxima)''.
\<close>

definition processed :: "log_entry list \<Rightarrow> nat list" where
  "processed logs = concat (map (\<lambda>e. case e of Processed n \<Rightarrow> [n] | _ \<Rightarrow> []) logs)"


section \<open>Concrete inputs\<close>

text \<open>Small inputs on which the theorems below are instantiated.\<close>

definition example_dictionary :: dictionary where
  "example_dictionary = [(''a'', 0), (''b'', 1)]"

definition example_embeddings :: keyed_vectors where
  "example_embeddings = \<lparr>vectors = [[1, 2]], vector_size = 2, vocab = [(''b'', 0)]\<rparr>"

definition foreign_embeddings :: keyed_vectors where
  "foreign_embeddings = \<lparr>vectors = [[1, 2]], vector_size = 2, vocab = [(''c'', 0)]\<rparr>"

text \<open>
  Library functions for concrete evaluation.  \<open>euclidean_distances_exact\<close> is
  scikit-learn's formula \<open>sqrt (max 0 (|x|\<^sup>2 - 2 x\<cdot>y + |y|\<^sup>2))\<close> in exact
  arithmetic.  \<open>emd_point_masses\<close> is the earth mover's distance of two histograms
  that each put all their mass in one bin: the ground distance between the two bins.
\<close>

definition dot :: "real list \<Rightarrow> real list \<Rightarrow> real" where
  "dot x y = sum_list (map (\<lambda>(a, b). a * b) (zip x y))"

definition euclidean_distances_exact :: "real list list \<Rightarrow> real list list \<Rightarrow> real list list" where
  "euclidean_distances_exact X N =
     map (\<lambda>(x, nx). map (\<lambda>(y, ny). sqrt (max 0 (hd nx - 2 * dot x y + hd ny))) (zip X N))
         (zip X N)"

definition first_nonzero :: "real list \<Rightarrow> nat" where
  "first_nonzero xs = length (takeWhile (\<lambda>x. x = 0) xs)"

definition emd_point_masses :: "real list \<Rightarrow> real list \<Rightarrow> real list list \<Rightarrow> real" where
  "emd_point_masses a b D = D ! first_nonzero a ! first_nonzero b"

text \<open>
  gensim's \<^verbatim>\<open>doc2bow\<close> (the counts of the known tokens, by ascending id) and
  \<^verbatim>\<open>unitvec\<close> (an empty document is returned as it is) in exact arithmetic.
\<close>

definition doc2bow_count :: "dictionary \<Rightarrow> string list \<Rightarrow> bow" where
  "doc2bow_count d document =
     map (\<lambda>i. (i, real (count_list (map (token2id d) document) (Some i))))
         (filter (\<lambda>i. Some i \<in> set (map (token2id d) document)) (sort (remdups (dict_keys d))))"

definition l1_norm :: "bow \<Rightarrow> real" where
  "l1_norm vec = sum_list (map (\<lambda>(t, v). \<bar>v\<bar>) vec)"

definition l2_norm :: "bow \<Rightarrow> real" where
  "l2_norm vec = sqrt (sum_list (map (\<lambda>(t, v). v ^ 2) vec))"

definition unitvec_exact :: "bow \<Rightarrow> norm \<Rightarrow> bow" where
  "unitvec_exact vec n =
     (if vec = [] then vec
      else map (\<lambda>(t, v). (t, v / (case n of L1 \<Rightarrow> l1_norm vec | L2 \<Rightarrow> l2_norm vec))) vec)"

definition example_libs :: libs where
  "example_libs =
     \<lparr>emd = emd_point_masses,
      euclidean_distances = euclidean_distances_exact,
      float_str = (\<lambda>r. if r = 1 / 2 then ''0.5'' else ''0.0''),
      other_str = (\<lambda>v. ''[]''),
      doc2bow = doc2bow_count,
      tfidf_model = (\<lambda>d document. document),
      unitvec = unitvec_exact,
      imap_order = rev,
      np_empty = (\<lambda>r c. replicate r (replicate c (Fin 0))),
      sparse_term_similarity_matrix = (\<lambda>e th ex d tf sy dom nz. [[1, 0], [0, 1]]),
      dense_soft_vsm = (\<lambda>E C Q. todense (mat_T Q)),
      sparse_soft_vsm = (\<lambda>M C Q. todense (mat_T Q))\<rparr>"

definition example_globals :: globals where
  "example_globals =
     \<lparr>common_dictionary = example_dictionary,
      common_embeddings = [(32, example_embeddings)],
      common_embedding_matrices = [(32, [[0], [1]])]\<rparr>"

definition example_train :: dataset where
  "example_train =
     \<lparr>name = ''train'', corpus = [[''a'']], avgdl = 1, dictionary = example_dictionary,
      target = Some [0]\<rparr>"

definition example_validation :: dataset where
  "example_validation =
     \<lparr>name = ''validation'', corpus = [[''a'']], avgdl = 1, dictionary = example_dictionary,
      target = Some [0]\<rparr>"

definition example_test :: dataset where
  "example_test =
     \<lparr>name = ''test'', corpus = [[''b'']], avgdl = 1, dictionary = example_dictionary,
      target = Some [0]\<rparr>"

definition example_world :: "params \<Rightarrow> world" where
  "example_world p = \<lparr>params = p, speed_logs = [], files = []\<rparr>"

text \<open>
  A stand-in for the missing \<^verbatim>\<open>ClassificationResult\<close>: the accuracy is 1 for
  \<open>k = 3\<close> and \<open>k = 5\<close> and 0 otherwise; the result keeps the parameters without the two
  cached corpora.
\<close>

definition example_common :: common where
  "example_common =
     \<lparr>from_similarities =
        (\<lambda>doc_sims train test p.
           \<lparr>accuracy = (if map_of p ''k'' = Some (PInt 3) \<or> map_of p ''k'' = Some (PInt 5)
                         then 1 else 0),
            result_params =
              filter (\<lambda>(k, v). k \<noteq> ''collection_corpus'' \<and> k \<noteq> ''query_corpus'') p\<rparr>),
      from_results = (\<lambda>y_true y_pred p. \<lparr>accuracy = 0, result_params = p\<rparr>),
      random_predictions = (\<lambda>y_true. y_true)\<rparr>"

section \<open>Properties of the pivoted normalisation\<close>

text \<open>
  C2.  \<^verbatim>\<open>pivot_worker\<close> divides every weight by
  \<open>(1 - slope) * avgdl + slope * doclen\<close>, but its \<open>doclen\<close> is twice the number of
  (term id, weight) pairs of the document, not the summed character length of the
  document's tokens: for the one-token document \<^verbatim>\<open>['hello']\<close>, of character length 5
  and bag-of-words form \<open>[(0, 1)]\<close>, slope 1 and \<open>avgdl = 5\<close> the weight is divided by 2.
\<close>

theorem pivot_worker_doclen_is_pair_count:
  "pivot_worker (document, slope, avg) =
     map (\<lambda>(term_id, term_weight).
            (term_id, term_weight / ((1 - slope) * avg + slope * real (2 * length document))))
         document \<and>
   char_length [''hello''] = 5 \<and>
   pivot_worker ([(0, 1)], 1, 5) = [(0, 1 / 2)]"
proof -
  have "sum_list (map py_len_pair document) = 2 * length document" for document :: bow
    by (induction document) (simp_all add: py_len_pair_def)
  then show ?thesis
    by (simp add: pivot_worker_def char_length_def)
qed

section \<open>Properties of the embedding matrix\<close>

lemma dict_getitem_key:
  "i \<in> set (dict_keys d) \<Longrightarrow> \<exists>tok. dict_getitem d i = Some tok \<and> (tok, i) \<in> set d"
proof -
  assume "i \<in> set (dict_keys d)"
  then have "i \<in> fst ` set (rev (map (\<lambda>(tok, i). (i, tok)) d))"
    by (force simp: dict_keys_def)
  then obtain tok where "map_of (rev (map (\<lambda>(tok, i). (i, tok)) d)) i = Some tok"
    by (metis domD dom_map_of_conv_image_fst)
  moreover from this have "(i, tok) \<in> set (rev (map (\<lambda>(tok, i). (i, tok)) d))"
    by (rule map_of_SomeD)
  ultimately show ?thesis by (auto simp: dict_getitem_def)
qed

lemma dict_getitem_wf:
  "distinct (map snd d) \<Longrightarrow> (tok, i) \<in> set d \<Longrightarrow> dict_getitem d i = Some tok"
proof -
  assume d: "distinct (map snd d)" and m: "(tok, i) \<in> set d"
  have "map fst (map (\<lambda>(tok, i). (i, tok)) d) = map snd d" by (induction d) auto
  with d have "distinct (map fst (map (\<lambda>(tok, i). (i, tok)) d))" by metis
  then have "distinct (map fst (rev (map (\<lambda>(tok, i). (i, tok)) d)))"
    by (simp add: rev_map [symmetric])
  moreover from m have "(i, tok) \<in> set (rev (map (\<lambda>(tok, i). (i, tok)) d))" by force
  ultimately show ?thesis unfolding dict_getitem_def by (rule map_of_is_SomeI)
qed

lemma row_pairs_none:
  "set ts \<subseteq> set (dict_keys d) \<Longrightarrow> \<forall>tok \<in> fst ` set d. map_of (vocab e) tok = None \<Longrightarrow>
   row_pairs e d ts = Inr []"
proof (induction ts)
  case Nil then show ?case by simp
next
  case (Cons t ts)
  then obtain tok where "dict_getitem d t = Some tok" "(tok, t) \<in> set d"
    using dict_getitem_key[of t d] by auto
  moreover from this Cons.prems have "map_of (vocab e) tok = None" by force
  ultimately show ?case using Cons by simp
qed

lemma row_pairs_some:
  "set ts \<subseteq> set (dict_keys d) \<Longrightarrow>
   \<exists>ps. row_pairs e d ts = Inr ps \<and>
        map snd ps = filter (\<lambda>t. \<exists>tok s. dict_getitem d t = Some tok \<and> map_of (vocab e) tok = Some s) ts \<and>
        (\<forall>(s, t) \<in> set ps. \<exists>tok. dict_getitem d t = Some tok \<and> map_of (vocab e) tok = Some s)"
proof (induction ts)
  case Nil then show ?case by simp
next
  case (Cons t ts)
  then obtain tok where tok: "dict_getitem d t = Some tok"
    using dict_getitem_key[of t d] by auto
  from Cons obtain ps where ps: "row_pairs e d ts = Inr ps"
     "map snd ps = filter (\<lambda>t. \<exists>tok s. dict_getitem d t = Some tok \<and> map_of (vocab e) tok = Some s) ts"
     "\<forall>(s, t) \<in> set ps. \<exists>tok. dict_getitem d t = Some tok \<and> map_of (vocab e) tok = Some s"
    by auto
  show ?case
  proof (cases "map_of (vocab e) tok")
    case None
    with tok ps show ?thesis by simp
  next
    case (Some s)
    with tok ps show ?thesis by simp
  qed
qed

lemma fold_rows_length:
  "length (fold (\<lambda>(s, t) m. m[t := src ! s]) ps m0) = length m0"
  by (induction ps arbitrary: m0) (auto split: prod.splits)

lemma fold_rows_nth:
  "distinct (map snd ps) \<Longrightarrow> \<forall>t \<in> set (map snd ps). t < length m0 \<Longrightarrow>
   fold (\<lambda>(s, t) m. m[t := src ! s]) ps m0 ! i =
     (case map_of (map (\<lambda>(s, t). (t, s)) ps) i of None \<Rightarrow> m0 ! i | Some s \<Rightarrow> src ! s)"
proof (induction ps arbitrary: m0)
  case Nil then show ?case by simp
next
  case (Cons p ps)
  obtain s t where p: "p = (s, t)" by (cases p)
  have notin: "t \<notin> snd ` set ps" using Cons.prems p by auto
  have "map_of (map (\<lambda>(s, t). (t, s)) ps) t = None"
  proof -
    have "t \<notin> fst ` set (map (\<lambda>(s, t). (t, s)) ps)" using notin by force
    then show ?thesis by (simp add: map_of_eq_None_iff)
  qed
  moreover have "fold (\<lambda>(s, t) m. m[t := src ! s]) ps (m0[t := src ! s]) ! i =
     (case map_of (map (\<lambda>(s, t). (t, s)) ps) i of None \<Rightarrow> (m0[t := src ! s]) ! i | Some s \<Rightarrow> src ! s)"
    using Cons.prems p by (intro Cons.IH) auto
  ultimately show ?case using p Cons.prems by (auto split: option.splits)
qed


lemma translate_embeddings_none:
  assumes "\<forall>tok \<in> fst ` set d. map_of (vocab e) tok = None"
  shows "translate_embeddings e d = Inl ValueError"
proof -
  have "row_pairs e d (sort (dict_keys d)) = Inr []"
    using assms by (intro row_pairs_none) auto
  then show ?thesis by (simp add: translate_embeddings_def)
qed

lemma translate_embeddings_some:
  assumes wf: "wf_dictionary d"
    and ex: "\<exists>tok \<in> fst ` set d. map_of (vocab e) tok \<noteq> None"
    and rng: "\<forall>s \<in> snd ` set (vocab e). s < length (vectors e)"
  shows "\<exists>m. translate_embeddings e d = Inr m \<and> length m = dict_len d \<and>
           (\<forall>(tok, i) \<in> set d. m ! i =
              (case map_of (vocab e) tok of
                 None \<Rightarrow> replicate (vector_size e) 0
               | Some s \<Rightarrow> vectors e ! s))"
proof -
  let ?P = "\<lambda>t. \<exists>tok s. dict_getitem d t = Some tok \<and> map_of (vocab e) tok = Some s"
  let ?ts = "sort (dict_keys d)"
  let ?z = "replicate (dict_len d) (replicate (vector_size e) (0::real))"
  let ?f = "\<lambda>(s, t) m. m[t := vectors e ! s]"
  from wf have dk: "distinct (map snd d)" and keys: "set (map snd d) = {0 ..< length d}"
    by (auto simp: wf_dictionary_def)
  obtain ps where ps: "row_pairs e d ?ts = Inr ps" "map snd ps = filter ?P ?ts"
    "\<forall>(s, t) \<in> set ps. \<exists>tok. dict_getitem d t = Some tok \<and> map_of (vocab e) tok = Some s"
    using row_pairs_some[of ?ts d e] by auto
  have get: "dict_getitem d i = Some tok" if "(tok, i) \<in> set d" for tok i
    using dk that by (rule dict_getitem_wf)
  have mem: "(s, i) \<in> set ps \<longleftrightarrow> map_of (vocab e) tok = Some s" if d: "(tok, i) \<in> set d" for tok i s
  proof
    assume "(s, i) \<in> set ps"
    with ps(3) get[OF d] show "map_of (vocab e) tok = Some s" by auto
  next
    assume v: "map_of (vocab e) tok = Some s"
    from d have "i \<in> set ?ts" by (force simp: dict_keys_def)
    with v get[OF d] have "i \<in> set (map snd ps)" by (simp add: ps(2))
    then obtain s' where s': "(s', i) \<in> set ps" by auto
    with ps(3) get[OF d] v have "s' = s" by auto
    with s' show "(s, i) \<in> set ps" by simp
  qed
  from ex obtain tok i s where e1: "(tok, i) \<in> set d" "map_of (vocab e) tok = Some s" by auto
  then have "(s, i) \<in> set ps" using mem by simp
  then obtain p ps' where cons: "ps = p # ps'" by (cases ps) auto
  have dist: "distinct (map snd ps)"
    using dk by (simp add: ps(2) dict_keys_def)
  have tgt: "\<forall>t \<in> set (map snd ps). t < dict_len d"
    using keys by (auto simp: ps(2) dict_keys_def dict_len_def)
  have src: "\<forall>s \<in> set (map fst ps). s < length (vectors e)"
  proof
    fix s assume "s \<in> set (map fst ps)"
    then obtain t where "(s, t) \<in> set ps" by auto
    with ps(3) obtain tok where "map_of (vocab e) tok = Some s" by auto
    then have "(tok, s) \<in> set (vocab e)" by (rule map_of_SomeD)
    with rng show "s < length (vectors e)" by force
  qed
  have res: "translate_embeddings e d = Inr (fold ?f ps ?z)"
    using ps(1) cons src tgt
    by (simp add: translate_embeddings_def Let_def not_le[symmetric] del: not_le) 
  have nth: "fold ?f ps ?z ! i =
      (case map_of (vocab e) tok of None \<Rightarrow> replicate (vector_size e) 0 | Some s \<Rightarrow> vectors e ! s)"
    if d: "(tok, i) \<in> set d" for tok i
  proof -
    have i: "i < dict_len d" using keys d by (force simp: dict_len_def)
    have dsw: "distinct (map fst (map (\<lambda>(s, t). (t, s)) ps))"
    proof -
      have "map fst (map (\<lambda>(s, t). (t, s)) ps) = map snd ps" by (induction ps) auto
      with dist show ?thesis by metis
    qed
    have f: "fold ?f ps ?z ! i =
       (case map_of (map (\<lambda>(s, t). (t, s)) ps) i of None \<Rightarrow> ?z ! i | Some s \<Rightarrow> vectors e ! s)"
      using dist tgt by (intro fold_rows_nth) auto
    show ?thesis
    proof (cases "map_of (vocab e) tok")
      case None
      have "map_of (map (\<lambda>(s, t). (t, s)) ps) i = None"
      proof (rule ccontr)
        assume "map_of (map (\<lambda>(s, t). (t, s)) ps) i \<noteq> None"
        then obtain s where "map_of (map (\<lambda>(s, t). (t, s)) ps) i = Some s" by auto
        then have "(i, s) \<in> set (map (\<lambda>(s, t). (t, s)) ps)" by (rule map_of_SomeD)
        then have "(s, i) \<in> set ps" by auto
        with mem[OF d] None show False by simp
      qed
      with f None i show ?thesis by simp
    next
      case (Some s)
      with mem[OF d] have "(s, i) \<in> set ps" by simp
      then have "(i, s) \<in> set (map (\<lambda>(s, t). (t, s)) ps)" by force
      with dsw have "map_of (map (\<lambda>(s, t). (t, s)) ps) i = Some s" by (rule map_of_is_SomeI)
      with f Some show ?thesis by simp
    qed
  qed
  have "length (fold ?f ps ?z) = dict_len d" by (simp add: fold_rows_length)
  with res nth show ?thesis by auto
qed

text \<open>
  C9.  When no token of the dictionary occurs in the embedding vocabulary,
  \<^verbatim>\<open>translate_embeddings\<close> raises \<^verbatim>\<open>ValueError\<close> (the unpacking of an empty
  \<^verbatim>\<open>zip\<close>) instead of returning the all-zero matrix.  When at least one token has
  an embedding (dictionary ids \<open>0 ..< len\<close>, vocabulary indices inside the
  source matrix) the result has one row per dictionary id: the embedding of the token
  if it has one, the zero row otherwise.
\<close>

theorem translate_embeddings_empty_unpack:
  "((\<forall>tok \<in> fst ` set d. map_of (vocab e) tok = None) \<longrightarrow>
      translate_embeddings e d = Inl ValueError) \<and>
   (wf_dictionary d \<and> (\<exists>tok \<in> fst ` set d. map_of (vocab e) tok \<noteq> None) \<and>
    (\<forall>s \<in> snd ` set (vocab e). s < length (vectors e)) \<longrightarrow>
      (\<exists>m. translate_embeddings e d = Inr m \<and> length m = dict_len d \<and>
         (\<forall>(tok, i) \<in> set d. m ! i =
            (case map_of (vocab e) tok of
               None \<Rightarrow> replicate (vector_size e) 0
             | Some s \<Rightarrow> vectors e ! s))))"
  using translate_embeddings_none [of d e] translate_embeddings_some [of d e] by blast

theorem translate_embeddings_empty_unpack_witness:
  "wf_dictionary example_dictionary \<and>
   translate_embeddings foreign_embeddings example_dictionary = Inl ValueError \<and>
   translate_embeddings example_embeddings example_dictionary = Inr [[0, 0], [1, 2]]"
proof -
  have a: "\<forall>tok \<in> fst ` set example_dictionary. map_of (vocab foreign_embeddings) tok = None"
    by (simp add: example_dictionary_def foreign_embeddings_def)
  have b: "wf_dictionary example_dictionary"
    by (auto simp: wf_dictionary_def example_dictionary_def)
  have c: "\<exists>tok \<in> fst ` set example_dictionary. map_of (vocab example_embeddings) tok \<noteq> None"
    by (simp add: example_dictionary_def example_embeddings_def)
  have d: "\<forall>s \<in> snd ` set (vocab example_embeddings). s < length (vectors example_embeddings)"
    by (simp add: example_embeddings_def)
  from a translate_embeddings_empty_unpack [of example_dictionary foreign_embeddings]
  have none: "translate_embeddings foreign_embeddings example_dictionary = Inl ValueError"
    by blast
  from b c d translate_embeddings_empty_unpack [of example_dictionary example_embeddings]
  obtain m where m: "translate_embeddings example_embeddings example_dictionary = Inr m"
    "length m = dict_len example_dictionary"
    "\<forall>(tok, i) \<in> set example_dictionary. m ! i =
        (case map_of (vocab example_embeddings) tok of
           None \<Rightarrow> replicate (vector_size example_embeddings) 0
         | Some s \<Rightarrow> vectors example_embeddings ! s)"
    by blast
  from m(2) obtain r0 r1 where rows: "m = [r0, r1]"
    by (auto simp: dict_len_def example_dictionary_def length_Suc_conv)
  from m(3) have "m ! 0 = [0, 0]" "m ! 1 = [1, 2]"
    by (simp_all add: example_dictionary_def example_embeddings_def eval_nat_numeral)
  with rows have "m = [[0, 0], [1, 2]]" by simp
  with m(1) none b show ?thesis by simp
qed

section \<open>Properties of the inverse word mover's distance\<close>











section \<open>Properties of the word mover's similarity matrix\<close>

lemma inverse_wmd_worker_coordinates:
  "inverse_wmd_worker L G task = Inr r \<Longrightarrow> (fst r, fst (snd r)) = task_coordinates task"
  by (auto simp: inverse_wmd_worker_def task_coordinates_def Let_def
           split: prod.splits sum.splits if_splits)

lemma set_item_shape:
  "set_item m r c v = Inr m' \<Longrightarrow> length m' = length m \<and> (\<forall>i. length (m' ! i) = length (m ! i))"
  by (auto simp: set_item_def nth_list_update split: if_splits)

lemma set_item_nth:
  "set_item m r c v = Inr m' \<Longrightarrow> m' ! i ! j = (if i = r \<and> j = c then v else m ! i ! j)"
  by (auto simp: set_item_def nth_list_update split: if_splits)

lemma set_item_in_range:
  "r < length m \<Longrightarrow> c < length (m ! r) \<Longrightarrow> \<exists>m'. set_item m r c v = Inr m'"
  by (simp add: set_item_def)

lemma scatter_triples:
  assumes "distinct (map (\<lambda>(r, c, v). (r, c)) ts)"
    and "\<forall>(r, c, v) \<in> set ts. r < length m0 \<and> c < length (m0 ! r)"
  shows "\<exists>m. scatter m0 (map Inr ts) = Inr m \<and> length m = length m0 \<and>
           (\<forall>i. length (m ! i) = length (m0 ! i)) \<and>
           (\<forall>(r, c, v) \<in> set ts. m ! r ! c = v) \<and>
           (\<forall>i j. (i, j) \<notin> (\<lambda>(r, c, v). (r, c)) ` set ts \<longrightarrow> m ! i ! j = m0 ! i ! j)"
  using assms
proof (induction ts arbitrary: m0)
  case Nil
  then show ?case by simp
next
  case (Cons t ts)
  obtain r c v where t: "t = (r, c, v)" by (cases t)
  from Cons.prems t obtain m1 where m1: "set_item m0 r c v = Inr m1"
    using set_item_in_range[of r m0 c v] by auto
  note sh = set_item_shape[OF m1]
  note nt = set_item_nth[OF m1]
  have "\<forall>(r, c, v) \<in> set ts. r < length m1 \<and> c < length (m1 ! r)"
    using Cons.prems(2) sh by auto
  moreover have "distinct (map (\<lambda>(r, c, v). (r, c)) ts)" using Cons.prems(1) by simp
  ultimately obtain m where m: "scatter m1 (map Inr ts) = Inr m" "length m = length m1"
      "\<forall>i. length (m ! i) = length (m1 ! i)"
      "\<forall>(r, c, v) \<in> set ts. m ! r ! c = v"
      "\<forall>i j. (i, j) \<notin> (\<lambda>(r, c, v). (r, c)) ` set ts \<longrightarrow> m ! i ! j = m1 ! i ! j"
    using Cons.IH[of m1] by blast
  have fresh: "(r, c) \<notin> (\<lambda>(r, c, v). (r, c)) ` set ts" using Cons.prems(1) t by auto
  have "scatter m0 (map Inr (t # ts)) = Inr m" using t m1 m(1) by simp
  moreover have "length m = length m0" using m(2) sh by simp
  moreover have "\<forall>i. length (m ! i) = length (m0 ! i)" using m(3) sh by simp
  moreover have "\<forall>(r, c, v) \<in> set (t # ts). m ! r ! c = v"
    using m(4) m(5) fresh nt t by auto
  moreover have "\<forall>i j. (i, j) \<notin> (\<lambda>(r, c, v). (r, c)) ` set (t # ts) \<longrightarrow> m ! i ! j = m0 ! i ! j"
    using m(5) nt t by auto
  ultimately show ?case by blast
qed

lemma enumerate_0_nth: "enumerate 0 xs = map (\<lambda>i. (i, xs ! i)) [0 ..< length xs]"
  by (rule nth_equalityI) (simp_all add: nth_enumerate_eq)

lemma wmd_tasks_nth:
  "wmd_tasks qc cc nb =
     concat (map (\<lambda>i. map (\<lambda>j. ((i, qc ! i), (j, cc ! j), nb)) [0 ..< length cc])
                 [0 ..< length qc])"
  by (simp add: wmd_tasks_def enumerate_0_nth o_def)

lemma task_coordinates_wmd_tasks:
  "map task_coordinates (wmd_tasks qc cc nb) =
     List.product [0 ..< length qc] [0 ..< length cc]"
  by (simp add: wmd_tasks_nth map_concat o_def task_coordinates_def product_concat_map)

lemma distinct_task_coordinates:
  "distinct (map task_coordinates (wmd_tasks qc cc nb))"
  by (simp add: task_coordinates_wmd_tasks distinct_product)

lemma wmd_tasks_member:
  "i < length qc \<Longrightarrow> j < length cc \<Longrightarrow> ((i, qc ! i), (j, cc ! j), nb) \<in> set (wmd_tasks qc cc nb)"
  by (force simp: wmd_tasks_nth)

lemma wmd_tasks_in_range:
  "t \<in> set (wmd_tasks qc cc nb) \<Longrightarrow>
     fst (task_coordinates t) < length qc \<and> snd (task_coordinates t) < length cc"
  by (auto simp: wmd_tasks_nth task_coordinates_def)


lemma scatter_arrival:
  assumes perm: "mset rs = mset (map (inverse_wmd_worker L G) (wmd_tasks qc cc nb))"
    and rows: "length init = length qc"
    and cols: "\<forall>i < length qc. length (init ! i) = length cc"
    and ok: "\<forall>t \<in> set (wmd_tasks qc cc nb). \<exists>r. inverse_wmd_worker L G t = Inr r"
  shows "\<exists>m. scatter init rs = Inr m \<and> length m = length qc \<and>
           (\<forall>i < length qc. length (m ! i) = length cc \<and>
              (\<forall>j < length cc.
                 inverse_wmd_worker L G ((i, qc ! i), (j, cc ! j), nb) = Inr (i, j, m ! i ! j)))"
proof -
  let ?w = "inverse_wmd_worker L G"
  let ?tasks = "wmd_tasks qc cc nb"
  let ?co = "\<lambda>(r, c, v). (r, c) :: nat \<times> nat"
  define ts where "ts = map projr rs"
  have set_rs: "set rs = ?w ` set ?tasks"
  proof -
    have "set_mset (mset rs) = set_mset (mset (map ?w ?tasks))" using perm by simp
    then show ?thesis by simp
  qed
  have all_inr: "\<forall>x \<in> set rs. \<exists>r. x = Inr r" using set_rs ok by auto
  have rs: "rs = map Inr ts"
    unfolding ts_def using all_inr by (induction rs) auto
  have "mset (map ?co ts) = mset (map (\<lambda>x. ?co (projr x)) rs)"
    by (simp add: ts_def o_def)
  also have "\<dots> = mset (map (\<lambda>x. ?co (projr x)) (map ?w ?tasks))"
  proof -
    have "image_mset (\<lambda>x. ?co (projr x)) (mset rs) =
          image_mset (\<lambda>x. ?co (projr x)) (mset (map ?w ?tasks))"
      using perm by (rule arg_cong)
    then show ?thesis by (simp only: mset_map)
  qed
  also have "map (\<lambda>x. ?co (projr x)) (map ?w ?tasks) = map task_coordinates ?tasks"
  proof (rule nth_equalityI)
    fix i assume "i < length (map (\<lambda>x. ?co (projr x)) (map ?w ?tasks))"
    then have i: "?tasks ! i \<in> set ?tasks" by simp
    from ok i obtain r where r: "?w (?tasks ! i) = Inr r" by auto
    from inverse_wmd_worker_coordinates[OF r] r i
    show "map (\<lambda>x. ?co (projr x)) (map ?w ?tasks) ! i = map task_coordinates ?tasks ! i"
      using \<open>i < length (map (\<lambda>x. ?co (projr x)) (map ?w ?tasks))\<close> by (simp add: split_beta)
  qed simp
  finally have ms: "mset (map ?co ts) = mset (map task_coordinates ?tasks)" .
  then have dist: "distinct (map ?co ts)"
    using distinct_task_coordinates[of qc cc nb] mset_eq_imp_distinct_iff[OF ms] by simp
  have mem: "(r, c, v) \<in> set ts \<longleftrightarrow> (\<exists>t \<in> set ?tasks. ?w t = Inr (r, c, v))" for r c v
  proof -
    have "(r, c, v) \<in> set ts \<longleftrightarrow> Inr (r, c, v) \<in> set rs" using rs by auto
    also have "\<dots> \<longleftrightarrow> Inr (r, c, v) \<in> ?w ` set ?tasks" using set_rs by simp
    also have "\<dots> \<longleftrightarrow> (\<exists>t \<in> set ?tasks. ?w t = Inr (r, c, v))" by (metis (no_types) image_iff)
    finally show ?thesis .
  qed
  have range: "\<forall>(r, c, v) \<in> set ts. r < length init \<and> c < length (init ! r)"
  proof (clarify)
    fix r c v assume "(r, c, v) \<in> set ts"
    then obtain t where t: "t \<in> set ?tasks" "?w t = Inr (r, c, v)" using mem by auto
    from inverse_wmd_worker_coordinates[OF t(2)] have "task_coordinates t = (r, c)" by simp
    with wmd_tasks_in_range[OF t(1)] have "r < length qc" "c < length cc" by simp_all
    with rows cols show "r < length init \<and> c < length (init ! r)" by simp
  qed
  from scatter_triples[OF dist range] obtain m where m:
    "scatter init (map Inr ts) = Inr m" "length m = length init"
    "\<forall>i. length (m ! i) = length (init ! i)"
    "\<forall>(r, c, v) \<in> set ts. m ! r ! c = v"
    by blast
  have "?w ((i, qc ! i), (j, cc ! j), nb) = Inr (i, j, m ! i ! j)"
    if i: "i < length qc" and j: "j < length cc" for i j
  proof -
    let ?t = "((i, qc ! i), (j, cc ! j), nb)"
    have t: "?t \<in> set ?tasks" using i j by (rule wmd_tasks_member)
    from ok t obtain r where r: "?w ?t = Inr r" by blast
    obtain a b v where abv: "r = (a, b, v)" by (cases r)
    from inverse_wmd_worker_coordinates[OF r] abv have "a = i" "b = j"
      by (simp_all add: task_coordinates_def)
    with r abv have w: "?w ?t = Inr (i, j, v)" by simp
    with t have "(i, j, v) \<in> set ts" using mem by blast
    with m(4) have "m ! i ! j = v" by auto
    with w show ?thesis by simp
  qed
  then have ent: "\<forall>i < length qc. length (m ! i) = length cc \<and>
              (\<forall>j < length cc. ?w ((i, qc ! i), (j, cc ! j), nb) = Inr (i, j, m ! i ! j))"
    using m(3) cols by simp
  have "scatter init rs = Inr m" using m(1) rs by simp
  moreover have "length m = length qc" using m(2) rows by simp
  ultimately show ?thesis using ent by blast
qed

text \<open>
  C8.  The units of work carry pairwise distinct coordinates, one for every cell of the
  matrix.  Whatever order the results arrive in (any permutation of the workers'
  results) and whatever the fresh matrix held, when every worker returns, the loop ends
  with a matrix of the shape (queries, collection documents) whose entry \<open>(i, j)\<close> is
  the inverse word mover's distance of query document \<open>i\<close> and collection document \<open>j\<close>.
\<close>

theorem wmd_doc_sims_order_independent:
  assumes "mset (arrival (map (inverse_wmd_worker L G) (wmd_tasks qc cc nb))) =
           mset (map (inverse_wmd_worker L G) (wmd_tasks qc cc nb))"
    and "length fresh = length qc"
    and "\<forall>i < length qc. length (fresh ! i) = length cc"
    and "\<forall>t \<in> set (wmd_tasks qc cc nb). \<exists>r. inverse_wmd_worker L G t = Inr r"
  shows "distinct (map task_coordinates (wmd_tasks qc cc nb)) \<and>
         set (map task_coordinates (wmd_tasks qc cc nb)) = {0 ..< length qc} \<times> {0 ..< length cc} \<and>
         (\<exists>m. wmd_doc_sims L G arrival fresh qc cc nb = Inr m \<and> length m = length qc \<and>
            (\<forall>i < length qc. length (m ! i) = length cc \<and>
               (\<forall>j < length cc.
                  inverse_wmd_worker L G ((i, qc ! i), (j, cc ! j), nb) = Inr (i, j, m ! i ! j))))"
proof -
  have "set (map task_coordinates (wmd_tasks qc cc nb)) = {0 ..< length qc} \<times> {0 ..< length cc}"
    by (simp only: task_coordinates_wmd_tasks set_product set_upt)
  then show ?thesis
    using scatter_arrival [OF assms] distinct_task_coordinates [of qc cc nb]
    unfolding wmd_doc_sims_def by blast
qed

theorem wmd_doc_sims_order_independent_witness:
  "wmd_doc_sims example_libs example_globals rev [[Fin 0, Fin 0]]
     [[(0, 1)]] [[(0, 1)], [(1, 1)]] (PInt 32) = Inr [[PosInf, Fin 1]] \<and>
   wmd_doc_sims example_libs example_globals id [[Fin 0, Fin 0]]
     [[(0, 1)]] [[(0, 1)], [(1, 1)]] (PInt 32) = Inr [[PosInf, Fin 1]]"
proof -
  let ?qc = "[[(0, 1)]] :: bow list"
  let ?cc = "[[(0, 1)], [(1, 1)]] :: bow list"
  let ?w = "inverse_wmd_worker example_libs example_globals"
  have t: "wmd_tasks ?qc ?cc (PInt 32) =
      [((0, [(0, 1)]), (0, [(0, 1)]), PInt 32), ((0, [(0, 1)]), (1, [(1, 1)]), PInt 32)]"
    by (simp add: wmd_tasks_def enumerate_eq_zip upt_rec)
  have w0: "?w ((0, [(0, 1)]), (0, [(0, 1)]), PInt 32) = Inr (0, 0, PosInf)"
    by (simp add: inverse_wmd_worker_def example_libs_def example_globals_def lookup_num_bits_def
        shared_terms_of_def dict_get_def dict_of_def norm_squared_def euclidean_distances_exact_def
        emd_point_masses_def first_nonzero_def dot_def)
  have w1: "?w ((0, [(0, 1)]), (1, [(1, 1)]), PInt 32) = Inr (0, 1, Fin 1)"
    by (simp add: inverse_wmd_worker_def example_libs_def example_globals_def lookup_num_bits_def
        shared_terms_of_def dict_get_def dict_of_def norm_squared_def euclidean_distances_exact_def
        emd_point_masses_def first_nonzero_def dot_def)
  have p1: "mset (rev (map ?w (wmd_tasks ?qc ?cc (PInt 32)))) = mset (map ?w (wmd_tasks ?qc ?cc (PInt 32)))"
    by simp
  have p2: "mset (id (map ?w (wmd_tasks ?qc ?cc (PInt 32)))) = mset (map ?w (wmd_tasks ?qc ?cc (PInt 32)))"
    by simp
  have l: "length [[Fin 0, Fin 0]] = length ?qc" by simp
  have c: "\<forall>i < length ?qc. length ([[Fin 0, Fin 0]] ! i) = length ?cc" by simp
  have ok: "\<forall>t \<in> set (wmd_tasks ?qc ?cc (PInt 32)). \<exists>r. ?w t = Inr r"
    unfolding t using w0 w1 by simp
  have shape: "m = [[PosInf, Fin 1]]"
    if "length m = length ?qc"
      and "\<forall>i < length ?qc. length (m ! i) = length ?cc \<and>
             (\<forall>j < length ?cc. ?w ((i, ?qc ! i), (j, ?cc ! j), PInt 32) = Inr (i, j, m ! i ! j))"
    for m
  proof -
    from that(1) obtain r where m: "m = [r]" by (auto simp: length_Suc_conv)
    from that(2) have z: "length (m ! 0) = length ?cc \<and>
        (\<forall>j < length ?cc. ?w ((0, ?qc ! 0), (j, ?cc ! j), PInt 32) = Inr (0, j, m ! 0 ! j))"
      by simp
    from z have zl: "length (m ! 0) = length ?cc" by (rule conjunct1)
    from z have zj: "\<forall>j < length ?cc. ?w ((0, ?qc ! 0), (j, ?cc ! j), PInt 32) = Inr (0, j, m ! 0 ! j)"
      by (rule conjunct2)
    from zl have len: "length r = 2" using m by simp
    from zj [rule_format, of 0]
    have e0: "?w ((0, [(0, 1)]), (0, [(0, 1)]), PInt 32) = Inr (0, 0, r ! 0)"
      using m by simp
    from zj [rule_format, of 1]
    have e1: "?w ((0, [(0, 1)]), (1, [(1, 1)]), PInt 32) = Inr (0, 1, r ! 1)"
      using m by simp
    from len obtain a b where r: "r = [a, b]"
      by (auto simp: length_Suc_conv eval_nat_numeral)
    from e0 e1 w0 w1 r m show ?thesis by simp
  qed
  from wmd_doc_sims_order_independent [of rev example_libs example_globals ?qc ?cc "PInt 32", OF p1 l c ok]
  have a: "wmd_doc_sims example_libs example_globals rev [[Fin 0, Fin 0]] ?qc ?cc (PInt 32) =
      Inr [[PosInf, Fin 1]]"
    using shape by blast
  from wmd_doc_sims_order_independent [of id example_libs example_globals ?qc ?cc "PInt 32", OF p2 l c ok]
  have b: "wmd_doc_sims example_libs example_globals id [[Fin 0, Fin 0]] ?qc ?cc (PInt 32) =
      Inr [[PosInf, Fin 1]]"
    using shape by blast
  from a b show ?thesis by simp
qed

section \<open>Properties of the parameter dictionary\<close>

lemma map_of_cache_corpus:
  "map_of (cache_corpus key encoded p) k =
     (if k = key \<and> map_of p key = None then Some (PCorpus encoded) else map_of p k)"
  by (simp add: cache_corpus_def update_conv')

lemma cache_corpus_present: "map_of p key \<noteq> None \<Longrightarrow> cache_corpus key encoded p = p"
  by (auto simp: cache_corpus_def)

lemma params_log_speed_exit: "params (fst (log_speed_exit r e w)) = params w"
  by (simp add: log_speed_exit_def)

lemma files_log_speed_exit: "files (fst (log_speed_exit r e w)) = files w"
  by (simp add: log_speed_exit_def)

lemma params_cached:
  "params (fst (cached_sparse_term_similarity_matrix b r built w)) = params w"
  by (simp add: cached_sparse_term_similarity_matrix_def log_speed_exit_def Let_def
      split: option.splits)

lemma fst_encode_collection:
  "fst (encode_collection L G collection cfg p) =
     cache_corpus ''collection_corpus''
       (map (doc2bow L (if cfg_weights cfg = PStr ''tfidf'' then dictionary collection
                        else common_dictionary G)) (corpus collection)) p"
  by (simp add: encode_collection_def Let_def)

lemma fst_encode_queries:
  "fst (encode_queries L G collection queries cfg p) =
     (if cfg_task cfg = PStr ''classification'' \<and>
         (cfg_weights cfg = PStr ''tfidf'' \<or> cfg_weights cfg = PStr ''bow'')
      then cache_corpus ''query_corpus''
             (map (doc2bow L (if cfg_weights cfg = PStr ''tfidf'' then dictionary collection
                              else common_dictionary G)) (corpus queries)) p
      else p)"
  by (simp add: encode_queries_def Let_def)

lemma params_compute_doc_sims:
  "params (fst (compute_doc_sims L G cfg cc qc w)) = params w"
proof -
  have c: "params (fst (case cached_sparse_term_similarity_matrix b r built w of
              (w', Inl err) \<Rightarrow> (w', Inl err)
            | (w', Inr term_matrix) \<Rightarrow> (w', Inr (f term_matrix)))) = params w"
    for b r built and f :: "real list list \<Rightarrow> pyfloat list list option"
    using params_cached[of b r built w]
    by (cases "cached_sparse_term_similarity_matrix b r built w") (auto split: sum.splits)
  show ?thesis
    unfolding compute_doc_sims_def Let_def
    by (simp add: c split: option.splits sum.splits prod.splits)
qed

lemma params_get_similarities:
  "params (fst (get_similarities L G collection queries w)) =
     (case read_config (params w) of
        Inl err \<Rightarrow> params w
      | Inr cfg \<Rightarrow>
          (case snd (encode_collection L G collection cfg (params w)) of
             Inl err \<Rightarrow> fst (encode_collection L G collection cfg (params w))
           | Inr cc \<Rightarrow>
               fst (encode_queries L G collection queries cfg
                      (fst (encode_collection L G collection cfg (params w))))))"
proof (cases "read_config (params w)")
  case (Inl err)
  then show ?thesis by (simp add: get_similarities_def)
next
  case (Inr cfg)
  obtain p1 r1 where e1: "encode_collection L G collection cfg (params w) = (p1, r1)"
    by (cases "encode_collection L G collection cfg (params w)")
  show ?thesis
  proof (cases r1)
    case (Inl err)
    with Inr e1 show ?thesis by (simp add: get_similarities_def)
  next
    case cc: (Inr cc)
    obtain p2 r2 where e2: "encode_queries L G collection queries cfg p1 = (p2, r2)"
      by (cases "encode_queries L G collection queries cfg p1")
    show ?thesis
    proof (cases r2)
      case (Inl err)
      with Inr e1 cc e2 show ?thesis by (simp add: get_similarities_def)
    next
      case qc: (Inr qc)
      obtain w3 r3 where e3: "compute_doc_sims L G cfg cc qc (w\<lparr>params := p2\<rparr>) = (w3, r3)"
        by (cases "compute_doc_sims L G cfg cc qc (w\<lparr>params := p2\<rparr>)")
      have p3: "params w3 = p2"
        using params_compute_doc_sims[of L G cfg cc qc "w\<lparr>params := p2\<rparr>"] e3 by simp
      show ?thesis
      proof (cases r3)
        case (Inl err)
        with Inr e1 cc e2 qc e3 p3 show ?thesis by (simp add: get_similarities_def)
      next
        case ds: (Inr ds)
        have "params (fst (log_speed_exit r e w3)) = p2" for r e
          using p3 by (simp add: params_log_speed_exit)
        then show ?thesis
          using Inr e1 cc e2 qc e3 ds
          by (simp add: get_similarities_def split: prod.splits sum.splits) (metis fst_conv)
      qed
    qed
  qed
qed


lemma snd_get_similarities:
  "snd (get_similarities L G collection queries w) =
     bind_e (read_config (params w)) (\<lambda>cfg.
     bind_e (snd (encode_collection L G collection cfg (params w))) (\<lambda>cc.
     bind_e (snd (encode_queries L G collection queries cfg
                    (fst (encode_collection L G collection cfg (params w))))) (\<lambda>qc.
     bind_e (snd (compute_doc_sims L G cfg cc qc
                    (w\<lparr>params := fst (encode_queries L G collection queries cfg
                                       (fst (encode_collection L G collection cfg (params w))))\<rparr>)))
       (\<lambda>doc_sims.
          if cfg_speed_logs cfg = PSpeedLogs
          then (case doc_sims of None \<Rightarrow> Inl (UnboundLocalError ''doc_sims'') | Some m \<Rightarrow> Inr m)
          else Inl AttributeError))))"
  by (simp add: get_similarities_def bind_e_def log_speed_exit_def Let_def
      split: sum.splits prod.splits)

lemma corpus_value_Inr: "corpus_value p key = Inr c \<longleftrightarrow> map_of p key = Some (PCorpus c)"
  by (auto simp: corpus_value_def split: option.splits pyval.splits)

lemma snd_encode_collection_Inr:
  "snd (encode_collection L G collection cfg p) = Inr cc \<Longrightarrow>
   \<exists>c. map_of (fst (encode_collection L G collection cfg p)) ''collection_corpus'' = Some (PCorpus c)"
  by (auto simp: encode_collection_def Let_def bind_e_def corpus_value_Inr
      split: if_splits sum.splits)

lemma snd_encode_queries_Inr:
  "snd (encode_queries L G collection queries cfg p) = Inr qc \<Longrightarrow>
   cfg_task cfg = PStr ''classification'' \<and>
   (cfg_weights cfg = PStr ''tfidf'' \<or> cfg_weights cfg = PStr ''bow'') \<and>
   (\<exists>c. map_of (fst (encode_queries L G collection queries cfg p)) ''query_corpus'' = Some (PCorpus c))"
  by (auto simp: encode_queries_def Let_def bind_e_def corpus_value_Inr
      split: if_splits sum.splits)

lemma encode_queries_cached:
  "map_of p ''query_corpus'' \<noteq> None \<Longrightarrow>
   encode_queries L G collection queries cfg p = encode_queries L G collection queries' cfg p"
  by (simp add: encode_queries_def cache_corpus_present)

lemma get_similarities_success:
  assumes "snd (get_similarities L G collection queries w) = Inr m"
  shows "\<exists>cfg cc qc. read_config (params w) = Inr cfg \<and>
           snd (encode_collection L G collection cfg (params w)) = Inr cc \<and>
           snd (encode_queries L G collection queries cfg
                  (fst (encode_collection L G collection cfg (params w)))) = Inr qc"
  using assms unfolding snd_get_similarities bind_e_def
  by (auto split: sum.splits)

lemma read_config_weights:
  "read_config p = Inr cfg \<Longrightarrow> map_of p ''weights'' = Some (cfg_weights cfg)"
  by (auto simp: read_config_def bind_e_def params_get_def split: sum.splits option.splits if_splits)

lemma fst_encode_collection_ex:
  "\<exists>e. fst (encode_collection L G collection cfg p) = cache_corpus ''collection_corpus'' e p"
  unfolding fst_encode_collection by blast

lemma fst_encode_queries_cases:
  "fst (encode_queries L G collection queries cfg p) = p \<or>
   (\<exists>e. fst (encode_queries L G collection queries cfg p) = cache_corpus ''query_corpus'' e p)"
  unfolding fst_encode_queries by (simp only: split: if_split) blast

lemma params_get_similarities_cases:
  "params (fst (get_similarities L G collection queries w)) = params w \<or>
   (\<exists>e. params (fst (get_similarities L G collection queries w)) =
      cache_corpus ''collection_corpus'' e (params w)) \<or>
   (\<exists>e e'. params (fst (get_similarities L G collection queries w)) =
      cache_corpus ''query_corpus'' e' (cache_corpus ''collection_corpus'' e (params w)))"
proof (cases "read_config (params w)")
  case (Inl err)
  then show ?thesis unfolding params_get_similarities by simp
next
  case (Inr cfg)
  obtain e where e: "fst (encode_collection L G collection cfg (params w)) =
      cache_corpus ''collection_corpus'' e (params w)"
    using fst_encode_collection_ex by blast
  show ?thesis
  proof (cases "snd (encode_collection L G collection cfg (params w))")
    case (Inl err)
    with Inr e show ?thesis
      unfolding params_get_similarities by auto
  next
    case cc: (Inr cc)
    have p: "params (fst (get_similarities L G collection queries w)) =
        fst (encode_queries L G collection queries cfg (cache_corpus ''collection_corpus'' e (params w)))"
      unfolding params_get_similarities using Inr cc e by simp
    from fst_encode_queries_cases
      [of L G collection queries cfg "cache_corpus ''collection_corpus'' e (params w)"]
    show ?thesis unfolding p by metis
  qed
qed

lemma params_get_similarities_frame:
  "k \<noteq> ''collection_corpus'' \<Longrightarrow> k \<noteq> ''query_corpus'' \<Longrightarrow>
   map_of (params (fst (get_similarities L G collection queries w))) k = map_of (params w) k"
  using params_get_similarities_cases [of L G collection queries w]
  by (auto simp: map_of_cache_corpus)

lemma params_get_similarities_kept:
  "map_of (params w) k = Some v \<Longrightarrow>
   map_of (params (fst (get_similarities L G collection queries w))) k = Some v"
  using params_get_similarities_cases [of L G collection queries w]
  by (auto simp: map_of_cache_corpus)

lemma params_get_similarities_stored:
  assumes ok: "snd (get_similarities L G collection queries w) = Inr m"
  shows "(\<exists>cc qc.
            map_of (params (fst (get_similarities L G collection queries w))) ''collection_corpus'' =
              Some (PCorpus cc) \<and>
            map_of (params (fst (get_similarities L G collection queries w))) ''query_corpus'' =
              Some (PCorpus qc)) \<and>
         (map_of (params w) ''collection_corpus'' = None \<longrightarrow>
            map_of (params (fst (get_similarities L G collection queries w))) ''collection_corpus'' =
              Some (PCorpus (map (doc2bow L
                (if map_of (params w) ''weights'' = Some (PStr ''tfidf'') then dictionary collection
                 else common_dictionary G)) (corpus collection)))) \<and>
         (map_of (params w) ''query_corpus'' = None \<longrightarrow>
            map_of (params (fst (get_similarities L G collection queries w))) ''query_corpus'' =
              Some (PCorpus (map (doc2bow L
                (if map_of (params w) ''weights'' = Some (PStr ''tfidf'') then dictionary collection
                 else common_dictionary G)) (corpus queries))))"
proof -
  from get_similarities_success[OF ok] obtain cfg cc qc where
    cfg: "read_config (params w) = Inr cfg"
    and cc: "snd (encode_collection L G collection cfg (params w)) = Inr cc"
    and qc: "snd (encode_queries L G collection queries cfg
                  (fst (encode_collection L G collection cfg (params w)))) = Inr qc"
    by blast
  let ?p1 = "fst (encode_collection L G collection cfg (params w))"
  let ?p2 = "fst (encode_queries L G collection queries cfg ?p1)"
  have p': "params (fst (get_similarities L G collection queries w)) = ?p2"
    unfolding params_get_similarities using cfg cc by simp
  note wts = read_config_weights[OF cfg]
  from snd_encode_collection_Inr[OF cc] obtain c1 where
    c1: "map_of ?p1 ''collection_corpus'' = Some (PCorpus c1)" by blast
  from snd_encode_queries_Inr[OF qc] obtain c2 where
    task: "cfg_task cfg = PStr ''classification''"
    and w2: "cfg_weights cfg = PStr ''tfidf'' \<or> cfg_weights cfg = PStr ''bow''"
    and c2: "map_of ?p2 ''query_corpus'' = Some (PCorpus c2)" by blast
  have c1': "map_of ?p2 ''collection_corpus'' = Some (PCorpus c1)"
    using c1 by (simp add: fst_encode_queries map_of_cache_corpus)
  have s1: "map_of ?p2 ''collection_corpus'' =
              Some (PCorpus (map (doc2bow L
                (if map_of (params w) ''weights'' = Some (PStr ''tfidf'') then dictionary collection
                 else common_dictionary G)) (corpus collection)))"
    if "map_of (params w) ''collection_corpus'' = None"
    using that wts
    by (simp add: fst_encode_queries fst_encode_collection
        map_of_cache_corpus)
  have s2: "map_of ?p2 ''query_corpus'' =
              Some (PCorpus (map (doc2bow L
                (if map_of (params w) ''weights'' = Some (PStr ''tfidf'') then dictionary collection
                 else common_dictionary G)) (corpus queries)))"
    if "map_of (params w) ''query_corpus'' = None"
    using that wts task w2
    by (auto simp add: fst_encode_queries fst_encode_collection
        map_of_cache_corpus)
  from c1' c2 s1 s2 show ?thesis unfolding p' by blast
qed

lemma get_similarities_reuses_query_corpus:
  assumes "map_of (params w) ''query_corpus'' \<noteq> None"
  shows "snd (get_similarities L G collection queries' w) =
         snd (get_similarities L G collection queries w) \<and>
         params (fst (get_similarities L G collection queries' w)) =
         params (fst (get_similarities L G collection queries w))"
proof -
  have "map_of (fst (encode_collection L G collection cfg (params w))) ''query_corpus'' \<noteq> None" for cfg
    using assms by (simp add: fst_encode_collection map_of_cache_corpus)
  then have "encode_queries L G collection queries' cfg
               (fst (encode_collection L G collection cfg (params w))) =
             encode_queries L G collection queries cfg
               (fst (encode_collection L G collection cfg (params w)))" for cfg
    by (rule encode_queries_cached)
  then show ?thesis
    unfolding snd_get_similarities params_get_similarities
    by (simp split: sum.splits add: bind_e_def)
qed

lemmas example_defs =
  example_libs_def example_globals_def example_dictionary_def example_train_def
  example_validation_def example_test_def example_world_def example_common_def
  example_embeddings_def initial_params_def doc2bow_count_def unitvec_exact_def l1_norm_def
  l2_norm_def token2id_def dict_keys_def dict_len_def dict_getitem_def

lemmas get_similarities_defs =
  get_similarities_def read_config_def read_sparse_def params_get_def bind_e_def
  encode_collection_def encode_queries_def cache_corpus_def corpus_value_def
  compute_doc_sims_def corpus2csc_def mat_T_def mat_dot_def todense_def weight_of_def
  log_speed_exit_def Let_def tfidf_encode_def pivot_all_def pivot_worker_def py_len_pair_def
  translate_document_worker_def

text \<open>
  C10.  \<^verbatim>\<open>get_similarities\<close> changes the caller's \<^verbatim>\<open>params\<close> only under the keys
  \<^verbatim>\<open>'collection_corpus'\<close> and \<^verbatim>\<open>'query_corpus'\<close>, and never overwrites a key that is
  present.  A call that returns leaves a corpus under both keys: where the key was
  absent, the bag-of-words encoding of the collection or of the queries.  When
  \<^verbatim>\<open>'query_corpus'\<close> is present the queries are not encoded again: the similarities
  and the resulting \<^verbatim>\<open>params\<close> are the same for every queries dataset.
\<close>

theorem get_similarities_caches_corpora_in_params:
  "(\<forall>k. k \<noteq> ''collection_corpus'' \<and> k \<noteq> ''query_corpus'' \<longrightarrow>
        map_of (params (fst (get_similarities L G collection queries w))) k = map_of (params w) k) \<and>
   (\<forall>k v. map_of (params w) k = Some v \<longrightarrow>
        map_of (params (fst (get_similarities L G collection queries w))) k = Some v) \<and>
   (\<forall>m. snd (get_similarities L G collection queries w) = Inr m \<longrightarrow>
      (\<exists>cc qc.
          map_of (params (fst (get_similarities L G collection queries w))) ''collection_corpus'' =
            Some (PCorpus cc) \<and>
          map_of (params (fst (get_similarities L G collection queries w))) ''query_corpus'' =
            Some (PCorpus qc)) \<and>
      (map_of (params w) ''collection_corpus'' = None \<longrightarrow>
          map_of (params (fst (get_similarities L G collection queries w))) ''collection_corpus'' =
            Some (PCorpus (map (doc2bow L
              (if map_of (params w) ''weights'' = Some (PStr ''tfidf'') then dictionary collection
               else common_dictionary G)) (corpus collection)))) \<and>
      (map_of (params w) ''query_corpus'' = None \<longrightarrow>
          map_of (params (fst (get_similarities L G collection queries w))) ''query_corpus'' =
            Some (PCorpus (map (doc2bow L
              (if map_of (params w) ''weights'' = Some (PStr ''tfidf'') then dictionary collection
               else common_dictionary G)) (corpus queries))))) \<and>
   (\<forall>queries'. map_of (params w) ''query_corpus'' \<noteq> None \<longrightarrow>
        snd (get_similarities L G collection queries' w) =
          snd (get_similarities L G collection queries w) \<and>
        params (fst (get_similarities L G collection queries' w)) =
          params (fst (get_similarities L G collection queries w)))"
  using params_get_similarities_frame [of _ L G collection queries w]
    params_get_similarities_kept [of w _ _ L G collection queries]
    params_get_similarities_stored [of L G collection queries w]
    get_similarities_reuses_query_corpus [of w L G collection _ queries]
  by blast

theorem get_similarities_caches_corpora_in_params_witness:
  "get_similarities example_libs example_globals example_train example_validation
     (example_world (initial_params (PStr ''vsm'') (PStr ''bow'') (PStr ''inner_product'') (PInt 32))) =
     (\<lparr>params =
         initial_params (PStr ''vsm'') (PStr ''bow'') (PStr ''inner_product'') (PInt 32) @
         [(''collection_corpus'', PCorpus [[(0, 1)]]), (''query_corpus'', PCorpus [[(0, 1)]])],
       speed_logs = [Processed 1], files = []\<rparr>,
      Inr [[Fin 1]]) \<and>
   snd (get_similarities example_libs example_globals example_train example_test
     (example_world (initial_params (PStr ''vsm'') (PStr ''bow'') (PStr ''inner_product'') (PInt 32)))) =
     Inr [[Fin 0]] \<and>
   snd (get_similarities example_libs example_globals example_train example_test
     (fst (get_similarities example_libs example_globals example_train example_validation
        (example_world
           (initial_params (PStr ''vsm'') (PStr ''bow'') (PStr ''inner_product'') (PInt 32)))))) =
     Inr [[Fin 1]]"
proof -
  let ?w0 = "example_world
    (initial_params (PStr ''vsm'') (PStr ''bow'') (PStr ''inner_product'') (PInt 32))"
  let ?w1 = "\<lparr>params =
         initial_params (PStr ''vsm'') (PStr ''bow'') (PStr ''inner_product'') (PInt 32) @
         [(''collection_corpus'', PCorpus [[(0, 1)]]), (''query_corpus'', PCorpus [[(0, 1)]])],
       speed_logs = [Processed 1], files = []\<rparr>"
  have g1: "get_similarities example_libs example_globals example_train example_validation ?w0 =
      (?w1, Inr [[Fin 1]])"
    by (simp add: example_defs get_similarities_defs upt_rec)
  have g2: "snd (get_similarities example_libs example_globals example_train example_validation ?w1) =
      Inr [[Fin 1]]"
    by (simp add: example_defs get_similarities_defs upt_rec)
  have g3: "snd (get_similarities example_libs example_globals example_train example_test ?w0) =
      Inr [[Fin 0]]"
    by (simp add: example_defs get_similarities_defs upt_rec)
  have present: "map_of (params ?w1) ''query_corpus'' \<noteq> None"
    by (simp add: initial_params_def)
  from present
    get_similarities_caches_corpora_in_params
      [of example_libs example_globals example_train example_validation ?w1]
  have "snd (get_similarities example_libs example_globals example_train example_test ?w1) =
      snd (get_similarities example_libs example_globals example_train example_validation ?w1)"
    by blast
  with g1 g2 g3 show ?thesis by simp
qed

section \<open>Configurations without a branch\<close>

lemma snd_encode_collection_plain:
  assumes "cfg_weights cfg \<noteq> PStr ''tfidf''" "cfg_weights cfg \<noteq> PStr ''bow''"
    and "\<forall>v. map_of p ''collection_corpus'' = Some v \<longrightarrow> (\<exists>c. v = PCorpus c)"
  shows "\<exists>cc. snd (encode_collection L G collection cfg p) = Inr cc"
proof (cases "map_of p ''collection_corpus''")
  case None
  then show ?thesis using assms(1,2)
    by (simp add: encode_collection_def Let_def bind_e_def corpus_value_def cache_corpus_def
        update_conv')
next
  case (Some v)
  with assms(3) obtain c where "v = PCorpus c" by blast
  with Some show ?thesis using assms(1,2)
    by (simp add: encode_collection_def Let_def bind_e_def corpus_value_def cache_corpus_def)
qed

lemma snd_encode_queries_unbound:
  "cfg_task cfg \<noteq> PStr ''classification'' \<or>
   (cfg_weights cfg \<noteq> PStr ''tfidf'' \<and> cfg_weights cfg \<noteq> PStr ''bow'') \<Longrightarrow>
   snd (encode_queries L G collection queries cfg p) = Inl (UnboundLocalError ''query_corpus'')"
  by (auto simp: encode_queries_def)

lemma compute_doc_sims_unassigned:
  "(cfg_measure cfg \<noteq> PStr ''wmd'' \<and> cfg_measure cfg \<noteq> PStr ''inner_product'') \<or>
   (cfg_measure cfg = PStr ''inner_product'' \<and> cfg_space cfg \<noteq> PStr ''vsm'' \<and>
    cfg_space cfg \<noteq> PStr ''dense_soft_vsm'' \<and> cfg_space cfg \<noteq> PStr ''sparse_soft_vsm'') \<Longrightarrow>
   compute_doc_sims L G cfg cc qc w = (w, Inr None)"
  by (auto simp: compute_doc_sims_def Let_def)


lemma get_similarities_unbound_query_corpus:
  assumes cfg: "read_config (params w) = Inr cfg"
    and no_branch: "cfg_weights cfg \<noteq> PStr ''tfidf''" "cfg_weights cfg \<noteq> PStr ''bow''"
    and corpus_ok: "\<forall>v. map_of (params w) ''collection_corpus'' = Some v \<longrightarrow> (\<exists>c. v = PCorpus c)"
  shows "snd (get_similarities L G collection queries w) = Inl (UnboundLocalError ''query_corpus'') \<and>
         map_of (params (fst (get_similarities L G collection queries w))) ''collection_corpus'' \<noteq> None"
proof -
  from snd_encode_collection_plain[OF no_branch corpus_ok] obtain cc where
    cc: "snd (encode_collection L G collection cfg (params w)) = Inr cc" by blast
  have q: "snd (encode_queries L G collection queries cfg
                 (fst (encode_collection L G collection cfg (params w)))) =
           Inl (UnboundLocalError ''query_corpus'')"
    using no_branch by (intro snd_encode_queries_unbound) simp
  have "snd (get_similarities L G collection queries w) = Inl (UnboundLocalError ''query_corpus'')"
    unfolding snd_get_similarities using cfg cc q by (simp add: bind_e_def)
  moreover have "map_of (params (fst (get_similarities L G collection queries w)))
      ''collection_corpus'' \<noteq> None"
    unfolding params_get_similarities using cfg cc no_branch
    by (simp add: fst_encode_queries fst_encode_collection map_of_cache_corpus)
  ultimately show ?thesis by simp
qed

lemma get_similarities_unbound_doc_sims:
  assumes cfg: "read_config (params w) = Inr cfg"
    and cc: "snd (encode_collection L G collection cfg (params w)) = Inr cc"
    and qc: "snd (encode_queries L G collection queries cfg
                 (fst (encode_collection L G collection cfg (params w)))) = Inr qc"
    and logs: "cfg_speed_logs cfg = PSpeedLogs"
    and no_branch:
      "(cfg_measure cfg \<noteq> PStr ''wmd'' \<and> cfg_measure cfg \<noteq> PStr ''inner_product'') \<or>
       (cfg_measure cfg = PStr ''inner_product'' \<and> cfg_space cfg \<noteq> PStr ''vsm'' \<and>
        cfg_space cfg \<noteq> PStr ''dense_soft_vsm'' \<and> cfg_space cfg \<noteq> PStr ''sparse_soft_vsm'')"
  shows "snd (get_similarities L G collection queries w) = Inl (UnboundLocalError ''doc_sims'')"
  unfolding snd_get_similarities using cfg cc qc logs compute_doc_sims_unassigned[OF no_branch]
  by (simp add: bind_e_def)

text \<open>
  C5.  No check guards the configuration.  When \<^verbatim>\<open>weights\<close> is neither \<^verbatim>\<open>'tfidf'\<close>
  nor \<^verbatim>\<open>'bow'\<close> (as with \<^verbatim>\<open>'binary'\<close>), the collection is encoded and stored in
  \<^verbatim>\<open>params\<close> first and the call then raises \<^verbatim>\<open>UnboundLocalError\<close> for
  \<^verbatim>\<open>query_corpus\<close>.  When both corpora are encoded and the measure, or under the inner
  product the space, has no branch, the call raises \<^verbatim>\<open>UnboundLocalError\<close> for
  \<^verbatim>\<open>doc_sims\<close>.
\<close>

theorem get_similarities_unguarded_combination:
  assumes "read_config (params w) = Inr cfg"
  shows "(cfg_weights cfg \<noteq> PStr ''tfidf'' \<and> cfg_weights cfg \<noteq> PStr ''bow'' \<and>
          (\<forall>v. map_of (params w) ''collection_corpus'' = Some v \<longrightarrow> (\<exists>c. v = PCorpus c)) \<longrightarrow>
            snd (get_similarities L G collection queries w) =
              Inl (UnboundLocalError ''query_corpus'') \<and>
            map_of (params (fst (get_similarities L G collection queries w)))
              ''collection_corpus'' \<noteq> None) \<and>
         ((\<exists>cc. snd (encode_collection L G collection cfg (params w)) = Inr cc) \<and>
          (\<exists>qc. snd (encode_queries L G collection queries cfg
                       (fst (encode_collection L G collection cfg (params w)))) = Inr qc) \<and>
          cfg_speed_logs cfg = PSpeedLogs \<and>
          ((cfg_measure cfg \<noteq> PStr ''wmd'' \<and> cfg_measure cfg \<noteq> PStr ''inner_product'') \<or>
           (cfg_measure cfg = PStr ''inner_product'' \<and> cfg_space cfg \<noteq> PStr ''vsm'' \<and>
            cfg_space cfg \<noteq> PStr ''dense_soft_vsm'' \<and>
            cfg_space cfg \<noteq> PStr ''sparse_soft_vsm'')) \<longrightarrow>
            snd (get_similarities L G collection queries w) =
              Inl (UnboundLocalError ''doc_sims''))"
  using get_similarities_unbound_query_corpus [OF assms, of L G collection queries]
    get_similarities_unbound_doc_sims [OF assms, of L G collection _ queries]
  by blast

theorem get_similarities_unguarded_combination_witness:
  "snd (get_similarities example_libs example_globals example_train example_validation
     (example_world
        (initial_params (PStr ''vsm'') (PStr ''binary'') (PStr ''inner_product'') (PInt 32)))) =
     Inl (UnboundLocalError ''query_corpus'') \<and>
   snd (get_similarities example_libs example_globals example_train example_validation
     (example_world
        (initial_params (PStr ''vsm'') (PStr ''bow'') (PStr ''cosine'') (PInt 32)))) =
     Inl (UnboundLocalError ''doc_sims'')"
proof -
  let ?pb = "initial_params (PStr ''vsm'') (PStr ''binary'') (PStr ''inner_product'') (PInt 32)"
  let ?cb = "\<lparr>cfg_space = PStr ''vsm'', cfg_sparse = None, cfg_weights = PStr ''binary'',
       cfg_slope = None, cfg_task = PStr ''classification'', cfg_measure = PStr ''inner_product'',
       cfg_num_bits = PInt 32, cfg_speed_logs = PSpeedLogs\<rparr>"
  let ?pc = "initial_params (PStr ''vsm'') (PStr ''bow'') (PStr ''cosine'') (PInt 32)"
  let ?cc = "\<lparr>cfg_space = PStr ''vsm'', cfg_sparse = None, cfg_weights = PStr ''bow'',
       cfg_slope = None, cfg_task = PStr ''classification'', cfg_measure = PStr ''cosine'',
       cfg_num_bits = PInt 32, cfg_speed_logs = PSpeedLogs\<rparr>"
  have rb: "read_config (params (example_world ?pb)) = Inr ?cb"
    by (simp add: read_config_def initial_params_def bind_e_def params_get_def example_world_def)
  have rc: "read_config (params (example_world ?pc)) = Inr ?cc"
    by (simp add: read_config_def initial_params_def bind_e_def params_get_def example_world_def)
  have hb: "cfg_weights ?cb \<noteq> PStr ''tfidf'' \<and> cfg_weights ?cb \<noteq> PStr ''bow'' \<and>
      (\<forall>v. map_of (params (example_world ?pb)) ''collection_corpus'' = Some v \<longrightarrow>
           (\<exists>c. v = PCorpus c))"
    by (simp add: initial_params_def example_world_def)
  have hc: "(\<exists>cc. snd (encode_collection example_libs example_globals example_train ?cc
                       (params (example_world ?pc))) = Inr cc) \<and>
      (\<exists>qc. snd (encode_queries example_libs example_globals example_train example_validation ?cc
                   (fst (encode_collection example_libs example_globals example_train ?cc
                           (params (example_world ?pc))))) = Inr qc) \<and>
      cfg_speed_logs ?cc = PSpeedLogs \<and>
      ((cfg_measure ?cc \<noteq> PStr ''wmd'' \<and> cfg_measure ?cc \<noteq> PStr ''inner_product'') \<or>
       (cfg_measure ?cc = PStr ''inner_product'' \<and> cfg_space ?cc \<noteq> PStr ''vsm'' \<and>
        cfg_space ?cc \<noteq> PStr ''dense_soft_vsm'' \<and> cfg_space ?cc \<noteq> PStr ''sparse_soft_vsm''))"
    by (simp add: example_defs encode_collection_def encode_queries_def cache_corpus_def
        corpus_value_def bind_e_def Let_def)
  from get_similarities_unguarded_combination
    [OF rb, of example_libs example_globals example_train example_validation] hb
  have a: "snd (get_similarities example_libs example_globals example_train example_validation
      (example_world ?pb)) = Inl (UnboundLocalError ''query_corpus'')"
    by blast
  from get_similarities_unguarded_combination
    [OF rc, of example_libs example_globals example_train example_validation] hc
  have b: "snd (get_similarities example_libs example_globals example_train example_validation
      (example_world ?pc)) = Inl (UnboundLocalError ''doc_sims'')"
    by blast
  from a b show ?thesis by simp
qed

section \<open>Properties of the exact vector space model\<close>











section \<open>Properties of the cache of term similarity matrices\<close>

lemma cached_miss:
  assumes "map_of (files w) (termsim_filename b) = None"
  shows "cached_sparse_term_similarity_matrix b PSpeedLogs built w =
     (w\<lparr>speed_logs := speed_logs w @ [Constructed_term_matrix, Produced_term_matrix],
        files := AList.update (termsim_filename b) built (files w)\<rparr>, Inr built)"
  using assms
  by (simp add: cached_sparse_term_similarity_matrix_def log_speed_exit_def Let_def)

lemma cached_hit:
  assumes "map_of (files w) (termsim_filename b) = Some m"
  shows "cached_sparse_term_similarity_matrix b PSpeedLogs built w =
     (w\<lparr>speed_logs := speed_logs w @ [Produced_term_matrix]\<rparr>, Inr m)"
  using assms
  by (simp add: cached_sparse_term_similarity_matrix_def log_speed_exit_def Let_def)

lemma cached_twice:
  "\<exists>m w1 w2.
     cached_sparse_term_similarity_matrix b PSpeedLogs built w = (w1, Inr m) \<and>
     cached_sparse_term_similarity_matrix b PSpeedLogs built' w1 = (w2, Inr m) \<and>
     map_of (files w1) (termsim_filename b) = Some m \<and>
     (m = built \<or> map_of (files w) (termsim_filename b) = Some m) \<and>
     count_list (speed_logs w2) Constructed_term_matrix =
       count_list (speed_logs w1) Constructed_term_matrix \<and>
     count_list (speed_logs w1) Constructed_term_matrix \<le>
       count_list (speed_logs w) Constructed_term_matrix + 1"
proof (cases "map_of (files w) (termsim_filename b)")
  case None
  let ?w1 = "w\<lparr>speed_logs := speed_logs w @ [Constructed_term_matrix, Produced_term_matrix],
        files := AList.update (termsim_filename b) built (files w)\<rparr>"
  have h: "map_of (files ?w1) (termsim_filename b) = Some built" by (simp add: update_conv')
  show ?thesis
    using cached_miss[OF None, of built] cached_hit[OF h, of built'] h by simp
next
  case (Some m)
  let ?w1 = "w\<lparr>speed_logs := speed_logs w @ [Produced_term_matrix]\<rparr>"
  have h: "map_of (files ?w1) (termsim_filename b) = Some m" using Some by simp
  show ?thesis
    using cached_hit[OF Some, of built] cached_hit[OF h, of built'] Some by simp
qed

lemma term_basename_fields:
  "term_basename L (PInt nb) (PBool tf) (PBool sy) (PBool dm) (PInt nz) (PFloat th) (PInt ex) =
     int_str nb @ ''-'' @ (if tf then ''True'' else ''False'') @ ''-'' @
     (if sy then ''True'' else ''False'') @ ''-'' @ (if dm then ''True'' else ''False'') @ ''-'' @
     int_str nz @ ''-'' @ float_str L th @ ''-'' @ int_str ex"
  by (simp add: term_basename_def)

lemma compute_doc_sims_sparse_file:
  assumes "cfg_measure cfg = PStr ''inner_product''" "cfg_space cfg = PStr ''sparse_soft_vsm''"
    and "cfg_sparse cfg = Some (tfidf, symmetric, dominant, nonzero_limit, threshold, exponent)"
    and "lookup_num_bits (common_embeddings G) (cfg_num_bits cfg) = Inr e"
    and "cfg_speed_logs cfg = PSpeedLogs"
  shows "\<exists>m. map_of (files (fst (compute_doc_sims L G cfg cc qc w)))
           (termsim_filename (term_basename L (cfg_num_bits cfg) tfidf symmetric dominant
              nonzero_limit threshold exponent)) = Some m \<and>
         snd (compute_doc_sims L G cfg cc qc w) =
           Inr (Some (sparse_soft_vsm L m
              (corpus2csc cc (dict_len (common_dictionary G)))
              (corpus2csc qc (dict_len (common_dictionary G)))))"
proof -
  let ?b = "term_basename L (cfg_num_bits cfg) tfidf symmetric dominant nonzero_limit threshold exponent"
  let ?built = "sparse_term_similarity_matrix L e threshold exponent (common_dictionary G) tfidf
     symmetric dominant nonzero_limit"
  from cached_twice[of ?b ?built w ?built] obtain m w1 where
    c: "cached_sparse_term_similarity_matrix ?b PSpeedLogs ?built w = (w1, Inr m)"
    and f: "map_of (files w1) (termsim_filename ?b) = Some m" by blast
  show ?thesis using assms c f
    by (simp add: compute_doc_sims_def Let_def)
qed

text \<open>
  C4.  Two calls of \<^verbatim>\<open>cached_sparse_term_similarity_matrix\<close> under the same basename
  return the same matrix, whatever the second call would have constructed: the first
  leaves it in the file of that basename, the second finds it there and constructs
  nothing, so the speed logs record at most one construction over both calls.  The
  basename is the quantization level, the TF-IDF flag, the symmetric flag, the dominant
  flag, the nonzero limit, the threshold and the exponent, in this order, joined by
  \<^verbatim>\<open>-\<close>; for the sparse soft vector space model \<^verbatim>\<open>get_similarities\<close> keeps the matrix
  it uses in the file of that basename.
\<close>

theorem cached_term_matrix_built_once:
  "(\<exists>m w1 w2.
      cached_sparse_term_similarity_matrix b PSpeedLogs built w = (w1, Inr m) \<and>
      cached_sparse_term_similarity_matrix b PSpeedLogs built' w1 = (w2, Inr m) \<and>
      map_of (files w1) (termsim_filename b) = Some m \<and>
      (m = built \<or> map_of (files w) (termsim_filename b) = Some m) \<and>
      count_list (speed_logs w2) Constructed_term_matrix =
        count_list (speed_logs w1) Constructed_term_matrix \<and>
      count_list (speed_logs w1) Constructed_term_matrix \<le>
        count_list (speed_logs w) Constructed_term_matrix + 1) \<and>
   term_basename L (PInt nb) (PBool tf) (PBool sy) (PBool dm) (PInt nz) (PFloat th) (PInt ex) =
     int_str nb @ ''-'' @ (if tf then ''True'' else ''False'') @ ''-'' @
     (if sy then ''True'' else ''False'') @ ''-'' @ (if dm then ''True'' else ''False'') @ ''-'' @
     int_str nz @ ''-'' @ float_str L th @ ''-'' @ int_str ex \<and>
   (cfg_measure cfg = PStr ''inner_product'' \<and> cfg_space cfg = PStr ''sparse_soft_vsm'' \<and>
    cfg_sparse cfg = Some (tfidf, symmetric, dominant, nonzero_limit, threshold, exponent) \<and>
    lookup_num_bits (common_embeddings G) (cfg_num_bits cfg) = Inr e \<and>
    cfg_speed_logs cfg = PSpeedLogs \<longrightarrow>
      (\<exists>m. map_of (files (fst (compute_doc_sims L G cfg cc qc w)))
              (termsim_filename (term_basename L (cfg_num_bits cfg) tfidf symmetric dominant
                 nonzero_limit threshold exponent)) = Some m \<and>
           snd (compute_doc_sims L G cfg cc qc w) =
             Inr (Some (sparse_soft_vsm L m
                (corpus2csc cc (dict_len (common_dictionary G)))
                (corpus2csc qc (dict_len (common_dictionary G)))))))"
  using cached_twice [of b built w built'] term_basename_fields [of L nb tf sy dm nz th ex]
    compute_doc_sims_sparse_file [of cfg tfidf symmetric dominant nonzero_limit threshold exponent
      G e L cc qc w]
  by blast

theorem cached_term_matrix_built_once_witness:
  "cached_sparse_term_similarity_matrix ''32-True-True-True-100-0.5-1'' PSpeedLogs [[1]]
     (example_world []) =
     (\<lparr>params = [], speed_logs = [Constructed_term_matrix, Produced_term_matrix],
       files = [(''matrices/termsim-32-True-True-True-100-0.5-1.pkl.xz'', [[1]])]\<rparr>, Inr [[1]]) \<and>
   snd (cached_sparse_term_similarity_matrix ''32-True-True-True-100-0.5-1'' PSpeedLogs [[2]]
     \<lparr>params = [], speed_logs = [Constructed_term_matrix, Produced_term_matrix],
       files = [(''matrices/termsim-32-True-True-True-100-0.5-1.pkl.xz'', [[1]])]\<rparr>) = Inr [[1]] \<and>
   term_basename example_libs (PInt 32) (PBool True) (PBool True) (PBool True) (PInt 100)
     (PFloat (1 / 2)) (PInt 1) = ''32-True-True-True-100-0.5-1'' \<and>
   (\<exists>m. map_of (files (fst (compute_doc_sims example_libs example_globals
        \<lparr>cfg_space = PStr ''sparse_soft_vsm'',
         cfg_sparse = Some (PBool True, PBool True, PBool True, PInt 100, PFloat (1 / 2), PInt 1),
         cfg_weights = PStr ''bow'', cfg_slope = None, cfg_task = PStr ''classification'',
         cfg_measure = PStr ''inner_product'', cfg_num_bits = PInt 32,
         cfg_speed_logs = PSpeedLogs\<rparr>
        [[(0, 1)]] [[(0, 1)]] (example_world []))))
      ''matrices/termsim-32-True-True-True-100-0.5-1.pkl.xz'' = Some m)"
proof -
  let ?b = "''32-True-True-True-100-0.5-1''"
  let ?w1 = "\<lparr>params = [], speed_logs = [Constructed_term_matrix, Produced_term_matrix],
       files = [(''matrices/termsim-32-True-True-True-100-0.5-1.pkl.xz'', [[1::real]])]\<rparr>"
  let ?cfg = "\<lparr>cfg_space = PStr ''sparse_soft_vsm'',
         cfg_sparse = Some (PBool True, PBool True, PBool True, PInt 100, PFloat (1 / 2), PInt 1),
         cfg_weights = PStr ''bow'', cfg_slope = None, cfg_task = PStr ''classification'',
         cfg_measure = PStr ''inner_product'', cfg_num_bits = PInt 32,
         cfg_speed_logs = PSpeedLogs\<rparr>"
  note inst = cached_term_matrix_built_once
    [of ?b "[[1]]" "example_world []" "[[2]]" example_libs 32 True True True 100 "1 / 2" 1 ?cfg
      "PBool True" "PBool True" "PBool True" "PInt 100" "PFloat (1 / 2)" "PInt 1"
      example_globals example_embeddings "[[(0, 1)]]" "[[(0, 1)]]"]
  have first: "cached_sparse_term_similarity_matrix ?b PSpeedLogs [[1]] (example_world []) =
      (?w1, Inr [[1]])"
    by (simp add: cached_sparse_term_similarity_matrix_def log_speed_exit_def Let_def
        example_world_def termsim_filename_def)
  from inst obtain m w1 w2 where
    a: "cached_sparse_term_similarity_matrix ?b PSpeedLogs [[1]] (example_world []) = (w1, Inr m)"
    and b: "cached_sparse_term_similarity_matrix ?b PSpeedLogs [[2]] w1 = (w2, Inr m)"
    by blast
  from a first have "(w1, Inr m :: py_error + real list list) = (?w1, Inr [[1]])"
    by (rule trans [OF sym])
  then have "w1 = ?w1" "m = [[1]]" by blast+
  with b have second: "snd (cached_sparse_term_similarity_matrix ?b PSpeedLogs [[2]] ?w1) = Inr [[1]]"
    by simp
  from inst have key: "term_basename example_libs (PInt 32) (PBool True) (PBool True) (PBool True)
      (PInt 100) (PFloat (1 / 2)) (PInt 1) = ?b"
    by (simp add: int_str_def nat_str.simps example_libs_def)
  have h: "cfg_measure ?cfg = PStr ''inner_product'' \<and> cfg_space ?cfg = PStr ''sparse_soft_vsm'' \<and>
      cfg_sparse ?cfg =
        Some (PBool True, PBool True, PBool True, PInt 100, PFloat (1 / 2), PInt 1) \<and>
      lookup_num_bits (common_embeddings example_globals) (cfg_num_bits ?cfg) =
        Inr example_embeddings \<and>
      cfg_speed_logs ?cfg = PSpeedLogs"
    by (simp add: lookup_num_bits_def example_globals_def)
  from inst h obtain m' where
    "map_of (files (fst (compute_doc_sims example_libs example_globals ?cfg [[(0, 1)]] [[(0, 1)]]
        (example_world []))))
      (termsim_filename (term_basename example_libs (cfg_num_bits ?cfg) (PBool True) (PBool True)
         (PBool True) (PInt 100) (PFloat (1 / 2)) (PInt 1))) = Some m'"
    by blast
  then have stored: "\<exists>m. map_of (files (fst (compute_doc_sims example_libs example_globals ?cfg
        [[(0, 1)]] [[(0, 1)]] (example_world []))))
      ''matrices/termsim-32-True-True-True-100-0.5-1.pkl.xz'' = Some m"
    using key by (simp add: termsim_filename_def)
  from first second key stored show ?thesis by simp
qed

section \<open>Properties of the classification\<close>



lemma py_max_nonempty: "results \<noteq> [] \<Longrightarrow> \<exists>best. py_max results = Some best"
  by (cases results) (simp_all add: py_max_def)



lemma processed_append [simp]: "processed (xs @ ys) = processed xs @ processed ys"
  by (simp add: processed_def)

lemma processed_simps [simp]:
  "processed [] = []"
  "processed (Processed n # xs) = n # processed xs"
  "processed (Produced_term_matrix # xs) = processed xs"
  "processed (Constructed_term_matrix # xs) = processed xs"
  by (simp_all add: processed_def)



















end
